theory Spec2Isabelle
  imports Main "HOL-Library.AList"
begin

section \<open>JavaScript values used by \<open>CssRecord.ts\<close>\<close>

text \<open>
  Strings are lists of code units below \<open>0x100\<close>, each a \<^typ>\<open>char\<close>. The regular
  expressions of the source test character classes one code unit at a time.
  \<open>CssRecord.ts\<close> can raise a \<open>TypeError\<close> (a member read on \<open>undefined\<close>); a macro
  handler that reads a capture group its match does not have fails with
  \<open>InvalidCapture\<close>.
\<close>

datatype js_error = TypeError | InvalidCapture

definition backslash :: char where
  "backslash = CHR 0x5C"

definition newline_char :: char where
  "newline_char = CHR 0x0A"

definition tab_char :: char where
  "tab_char = CHR 0x09"

text \<open>The character classes \<open>\d\<close>, \<open>[-_a-zA-Z\d]\<close> and \<open>\s\<close>. Of the code units below
  \<open>0x100\<close>, \<open>\s\<close> matches 9 to 13, the space and the no-break space \<open>0xA0\<close>.\<close>

definition is_digit :: "char \<Rightarrow> bool" where
  "is_digit c = (let n = (of_char c :: nat) in 48 \<le> n \<and> n \<le> 57)"

definition is_ident_char :: "char \<Rightarrow> bool" where
  "is_ident_char c =
     (let n = (of_char c :: nat)
      in n = 45 \<or> n = 95 \<or> (97 \<le> n \<and> n \<le> 122) \<or> (65 \<le> n \<and> n \<le> 90) \<or> is_digit c)"

definition is_space :: "char \<Rightarrow> bool" where
  "is_space c = (let n = (of_char c :: nat) in (9 \<le> n \<and> n \<le> 13) \<or> n = 32 \<or> n = 160)"

definition is_line_terminator :: "char \<Rightarrow> bool" where
  "is_line_terminator c = (let n = (of_char c :: nat) in n = 10 \<or> n = 13)"

text \<open>\<open>xs.join(sep)\<close> on an array of strings.\<close>

fun js_join :: "string \<Rightarrow> string list \<Rightarrow> string" where
  "js_join sep [] = []"
| "js_join sep [x] = x"
| "js_join sep (x # y # ys) = x @ sep @ js_join sep (y # ys)"

text \<open>A template literal prints \<open>null\<close> as the text \<open>null\<close>.\<close>

definition js_to_string :: "string option \<Rightarrow> string" where
  "js_to_string x = (case x of None \<Rightarrow> ''null'' | Some s \<Rightarrow> s)"

subsection \<open>Plain objects\<close>

text \<open>
  A plain object with string keys is the list of its own properties in insertion order.
  Writing a key that exists keeps its position, writing a new one appends
  (\<^const>\<open>AList.update\<close>). \<open>Object.keys\<close>, \<open>for ... in\<close> and object spread visit the
  array-index keys first, in ascending numeric order, then the other keys in insertion
  order. The \<open>in\<close> operator and a member read also see the properties every plain object
  inherits from \<open>Object.prototype\<close>.
\<close>

type_synonym 'v js_object = "(string \<times> 'v) list"

definition Object_prototype_keys :: "string list" where
  "Object_prototype_keys =
     [''constructor'', ''__defineGetter__'', ''__defineSetter__'', ''hasOwnProperty'',
      ''__lookupGetter__'', ''__lookupSetter__'', ''isPrototypeOf'',
      ''propertyIsEnumerable'', ''toString'', ''valueOf'', ''__proto__'',
      ''toLocaleString'']"

definition js_in :: "string \<Rightarrow> 'v js_object \<Rightarrow> bool" where
  "js_in k obj = (k \<in> set (map fst obj) \<or> k \<in> set Object_prototype_keys)"

definition array_index_value :: "string \<Rightarrow> int option" where
  "array_index_value k =
     (case k of
        [] \<Rightarrow> None
      | c # cs \<Rightarrow>
          if list_all is_digit k \<and> (if c = CHR ''0'' then cs = [] else True)
          then (let n = foldl (\<lambda>a d. 10 * a + (of_char d - 48)) (0::int) k
                in if n < 4294967295 then Some n else None)
          else None)"

definition Object_keys :: "'v js_object \<Rightarrow> string list" where
  "Object_keys obj =
     (let ks = map fst obj
      in sort_key (\<lambda>k. the (array_index_value k)) (filter (\<lambda>k. array_index_value k \<noteq> None) ks)
         @ filter (\<lambda>k. array_index_value k = None) ks)"

definition own_entries :: "'v js_object \<Rightarrow> (string \<times> 'v) list" where
  "own_entries obj = concat (map (\<lambda>k. case map_of obj k of None \<Rightarrow> [] | Some v \<Rightarrow> [(k, v)]) (Object_keys obj))"

text \<open>\<open>{...a, ...b}\<close>: a new object that receives the own properties of \<open>a\<close>, then of \<open>b\<close>.\<close>

definition object_spread :: "'v js_object \<Rightarrow> 'v js_object \<Rightarrow> 'v js_object" where
  "object_spread a b = fold (\<lambda>(k, v) acc. AList.update k v acc) (own_entries a @ own_entries b) []"

section \<open>The class \<open>CssRecord\<close> (named export)\<close>

text \<open>
  Property values are strings; the numbers the type \<open>string | number\<close> also admits are
  left out.
\<close>

type_synonym PropertiesType = "string js_object"

type_synonym CssRecordComponentsType = "(string list) js_object"

record CssRecord =
  changed :: bool
  cache :: "string option"
  shouldBeGenerated :: bool
  selector :: "string option"
  mangledSelector :: "string option"
  screenId :: "int option"
  scope :: "string option"
  customSelectors :: "string list"
  components :: CssRecordComponentsType
  properties :: PropertiesType
  pseudoClasses :: "string list"

text \<open>The field initialisers of the class.\<close>

definition initial_CssRecord :: CssRecord where
  "initial_CssRecord =
     \<lparr>changed = False, cache = None, shouldBeGenerated = False, selector = None,
      mangledSelector = None, screenId = None, scope = None, customSelectors = [],
      components = [], properties = [], pseudoClasses = []\<rparr>"

text \<open>
  \<open>CssRecordConfigInterface\<close>: every field is optional, \<^const>\<open>None\<close> is an absent key.
\<close>

record CssRecordConfigInterface =
  cfg_screenId :: "int option"
  cfg_selector :: "string option"
  cfg_properties :: "PropertiesType option"
  cfg_customSelectors :: "string list option"
  cfg_components :: "CssRecordComponentsType option"
  cfg_pseudoClasses :: "string list option"
  cfg_scope :: "string option"
  cfg_shouldBeGenerated :: "bool option"

definition empty_config :: CssRecordConfigInterface where
  "empty_config =
     \<lparr>cfg_screenId = None, cfg_selector = None, cfg_properties = None,
      cfg_customSelectors = None, cfg_components = None, cfg_pseudoClasses = None,
      cfg_scope = None, cfg_shouldBeGenerated = None\<rparr>"

text \<open>\<open>Object.keys(config).length\<close>.\<close>

definition count_present :: "'a option \<Rightarrow> nat" where
  "count_present x = (case x of None \<Rightarrow> 0 | Some _ \<Rightarrow> 1)"

definition config_keys_length :: "CssRecordConfigInterface \<Rightarrow> nat" where
  "config_keys_length config =
     count_present (cfg_screenId config) + count_present (cfg_selector config)
     + count_present (cfg_properties config) + count_present (cfg_customSelectors config)
     + count_present (cfg_components config) + count_present (cfg_pseudoClasses config)
     + count_present (cfg_scope config) + count_present (cfg_shouldBeGenerated config)"

record CssRecordCompileParametersConfig =
  minimize :: bool
  mangleSelectors :: bool

text \<open>\<open>s.replace(/([^-_a-zA-Z\d])/g, '\\$1')\<close>, used by \<open>configure\<close>, \<open>addComponent\<close> and
  the legacy \<open>addSelector\<close>: the scan goes left to right, a code unit outside the class is
  replaced by a backslash and itself.\<close>

fun replace_non_ident :: "string \<Rightarrow> string" where
  "replace_non_ident [] = []"
| "replace_non_ident (c # cs) =
     (if is_ident_char c then c # replace_non_ident cs
      else backslash # c # replace_non_ident cs)"

text \<open>
  \<open>addProperty\<close>. The hook registry is not part of \<open>CssRecord.ts\<close>: the result of
  \<open>hooks.callHook('cssRecord:addProperty', payload)\<close> is the parameter \<open>hook\<close> applied to
  the payload.
\<close>

definition addProperty ::
  "(PropertiesType \<Rightarrow> PropertiesType) \<Rightarrow> string \<Rightarrow> string \<Rightarrow> CssRecord \<Rightarrow> CssRecord" where
  "addProperty hook property v r =
     (if js_in property (properties r) then r
      else (let addPropertyHookData = [(property, v)];
                hookResult = hook addPropertyHookData
            in r\<lparr>changed := True, properties := object_spread (properties r) hookResult\<rparr>))"

definition addProperties ::
  "(PropertiesType \<Rightarrow> PropertiesType) \<Rightarrow> PropertiesType \<Rightarrow> CssRecord \<Rightarrow> CssRecord" where
  "addProperties hook props r =
     fold (\<lambda>(property, v) acc. addProperty hook property v (acc\<lparr>changed := True\<rparr>))
       (own_entries props) r"

text \<open>\<open>addPseudoClasses\<close> takes an array or one string, which it wraps in an array.\<close>

datatype pseudoClassesArg = PseudoList "string list" | PseudoOne string

fun pseudoClasses_loop :: "string list \<Rightarrow> CssRecord \<Rightarrow> CssRecord" where
  "pseudoClasses_loop [] r = r"
| "pseudoClasses_loop (pseudoClass # rest) r =
     pseudoClasses_loop rest
       (if pseudoClass \<in> set (pseudoClasses r) then r
        else r\<lparr>changed := True, pseudoClasses := pseudoClasses r @ [pseudoClass]\<rparr>)"

definition addPseudoClasses :: "pseudoClassesArg \<Rightarrow> CssRecord \<Rightarrow> CssRecord" where
  "addPseudoClasses arg r =
     pseudoClasses_loop (case arg of PseudoList xs \<Rightarrow> xs | PseudoOne x \<Rightarrow> [x]) r"

definition addCustomSelector :: "string \<Rightarrow> CssRecord \<Rightarrow> CssRecord" where
  "addCustomSelector sel r =
     (if sel \<in> set (customSelectors r) then r
      else r\<lparr>customSelectors := customSelectors r @ [sel]\<rparr>)"

definition addComponent :: "string \<Rightarrow> string list \<Rightarrow> CssRecord \<Rightarrow> CssRecord" where
  "addComponent sel selectorsChain r =
     (let sel' = replace_non_ident sel
      in if js_in sel' (components r) then r
         else r\<lparr>changed := True, components := AList.update sel' selectorsChain (components r)\<rparr>)"

definition addComponents :: "CssRecordComponentsType \<Rightarrow> CssRecord \<Rightarrow> CssRecord" where
  "addComponents comps r =
     fold (\<lambda>(componentSelector, chain) acc. addComponent componentSelector chain acc)
       (own_entries comps) r"

text \<open>
  \<open>configure\<close>. The selector mangler is not part of \<open>CssRecord.ts\<close>: \<open>mangle\<close> stands for
  \<open>minifiedSelectorGenerator.getMangledSelector\<close>, which receives \<open>config.selector\<close>, that is
  \<open>undefined\<close> (\<^const>\<open>None\<close>) when the key is missing, and is taken to return a string for
  every argument. With a config that has keys but no \<open>selector\<close>, \<open>config.selector.replace\<close>
  is a member read on \<open>undefined\<close> and throws; \<open>mangledSelector\<close> and \<open>screenId\<close> are assigned
  by then, so the error comes with the record as the call leaves it.
\<close>

definition starts_with_digit :: "string \<Rightarrow> bool" where
  "starts_with_digit s = (case s of [] \<Rightarrow> False | c # _ \<Rightarrow> is_digit c)"

definition configure ::
  "(string option \<Rightarrow> string) \<Rightarrow> (PropertiesType \<Rightarrow> PropertiesType) \<Rightarrow> CssRecordConfigInterface
     \<Rightarrow> CssRecord \<Rightarrow> js_error \<times> CssRecord + CssRecord" where
  "configure mangle hook config r =
     (if config_keys_length config = 0 then Inr r
      else (let r1 = r\<lparr>mangledSelector := Some (mangle (cfg_selector config)),
                        screenId := cfg_screenId config\<rparr>
            in case cfg_selector config of
                 None \<Rightarrow> Inl (TypeError, r1)
               | Some s \<Rightarrow>
                   (let escaped = replace_non_ident s;
                        r2 = r1\<lparr>selector :=
                               Some (if starts_with_digit escaped
                                     then backslash # CHR ''3'' # escaped
                                     else escaped)\<rparr>;
                        r3 = r2\<lparr>scope := (case cfg_scope config of
                                            None \<Rightarrow> None
                                          | Some sc \<Rightarrow> if sc = [] then None else Some sc)\<rparr>;
                        r4 = r3\<lparr>shouldBeGenerated :=
                               (case cfg_shouldBeGenerated config of
                                  Some b \<Rightarrow> b
                                | None \<Rightarrow> shouldBeGenerated r3)\<rparr>;
                        r5 = addComponents
                               (case cfg_components config of None \<Rightarrow> [] | Some c \<Rightarrow> c) r4;
                        r6 = addProperties hook
                               (case cfg_properties config of None \<Rightarrow> [] | Some p \<Rightarrow> p) r5;
                        r7 = addPseudoClasses
                               (PseudoList (case cfg_pseudoClasses config of
                                              None \<Rightarrow> []
                                            | Some p \<Rightarrow> p)) r6
                    in Inr (r7\<lparr>changed := True\<rparr>))))"

text \<open>The constructor: the field initialisers, then \<open>this.configure(config)\<close>. When
  \<open>configure\<close> throws, there is no object.\<close>

definition new_CssRecord ::
  "(string option \<Rightarrow> string) \<Rightarrow> (PropertiesType \<Rightarrow> PropertiesType) \<Rightarrow> CssRecordConfigInterface
     \<Rightarrow> js_error + CssRecord" where
  "new_CssRecord mangle hook config =
     (case configure mangle hook config initial_CssRecord of
        Inl (e, r) \<Rightarrow> Inl e
      | Inr r \<Rightarrow> Inr r)"

subsection \<open>\<open>generateCss\<close>\<close>

text \<open>
  \<open>(/^\s*$/gm).test(s)\<close>: with the \<open>m\<close> flag the pattern matches when some line start
  is followed by white space only up to some line end.
\<close>

definition at_line_start :: "string \<Rightarrow> nat \<Rightarrow> bool" where
  "at_line_start s i = (case i of 0 \<Rightarrow> True | Suc k \<Rightarrow> is_line_terminator (s ! k))"

definition at_line_end :: "string \<Rightarrow> nat \<Rightarrow> bool" where
  "at_line_end s j = (if j < length s then is_line_terminator (s ! j) else True)"

definition test_blank_line :: "string \<Rightarrow> bool" where
  "test_blank_line s =
     list_ex (\<lambda>i. at_line_start s i \<and>
                list_ex (\<lambda>j. at_line_end s j \<and> list_all is_space (take (j - i) (drop i s)))
                  [i..<Suc (length s)])
       [0..<Suc (length s)]"

text \<open>\<open>s.replace(/\s\s+/g, ' ')\<close>: every run of two or more white-space code units becomes
  one space.\<close>

function collapse_spaces :: "string \<Rightarrow> string" where
  "collapse_spaces [] = []"
| "collapse_spaces [c] = [c]"
| "collapse_spaces (c # d # cs) =
     (if is_space c \<and> is_space d then CHR '' '' # collapse_spaces (dropWhile is_space cs)
      else c # collapse_spaces (d # cs))"
  by pat_completeness auto
termination
  by (relation "measure length") (auto simp: less_Suc_eq_le intro: le_trans [OF length_dropWhile_le])

text \<open>\<open>s.split(' ')\<close>.\<close>

fun js_split :: "char \<Rightarrow> string \<Rightarrow> string list" where
  "js_split sep [] = [[]]"
| "js_split sep (c # cs) =
     (if c = sep then [] # js_split sep cs
      else (case js_split sep cs of [] \<Rightarrow> [[c]] | w # ws \<Rightarrow> (c # w) # ws))"

text \<open>
  The loop over \<open>this.components\<close>. \<open>selectorsChain.pop()\<close> empties the array the record
  holds, so the loop also returns the components as it leaves them.
\<close>

definition pop_blank_chain :: "string list \<Rightarrow> string list" where
  "pop_blank_chain selectorsChain =
     (case selectorsChain of
        [x] \<Rightarrow> if test_blank_line x then [] else selectorsChain
      | _ \<Rightarrow> selectorsChain)"

definition chain_selectors :: "string \<Rightarrow> string list \<Rightarrow> string list" where
  "chain_selectors componentSelector selectorsChain =
     (if selectorsChain = [] then [componentSelector]
      else map (\<lambda>chainedSelectors.
                  js_join ''.'' (js_split (CHR '' '') (collapse_spaces chainedSelectors)
                                 @ [componentSelector]))
             selectorsChain)"

definition components_loop ::
  "CssRecordComponentsType \<Rightarrow> string list \<times> CssRecordComponentsType" where
  "components_loop comps =
     fold (\<lambda>(componentSelector, chain) (componentsSelectors, cs).
             (let chain' = pop_blank_chain chain
              in (componentsSelectors @ chain_selectors componentSelector chain',
                  AList.update componentSelector chain' cs)))
       (own_entries comps) ([], comps)"

text \<open>
  The loop over \<open>this.pseudoClasses\<close>: \<open>customSelectors\<close> is assigned in every round,
  \<open>classSelectors\<close> is extended in every round.
\<close>

fun pseudo_loop ::
  "string list \<Rightarrow> string list \<Rightarrow> string \<Rightarrow> string list \<Rightarrow> string list \<times> string list
     \<Rightarrow> string list \<times> string list" where
  "pseudo_loop [] this_customSelectors cssRecordSelector componentsSelectors acc = acc"
| "pseudo_loop (pseudoClass # rest) this_customSelectors cssRecordSelector componentsSelectors
     (customSels, classSelectors) =
     (let pseudoClassSuffix = CHR '':'' # pseudoClass
      in pseudo_loop rest this_customSelectors cssRecordSelector componentsSelectors
           (map (\<lambda>sel. sel @ pseudoClassSuffix) this_customSelectors,
            classSelectors @ [cssRecordSelector @ pseudoClassSuffix]
              @ map (\<lambda>sel. sel @ pseudoClassSuffix) componentsSelectors))"

definition selector_variants ::
  "CssRecordCompileParametersConfig \<Rightarrow> CssRecord \<Rightarrow> string list \<Rightarrow> string list" where
  "selector_variants config r componentsSelectors =
     (let cssRecordSelector =
            js_to_string (if mangleSelectors config then mangledSelector r else selector r);
          (customSels, classSelectors) =
            (if pseudoClasses r = [] then (customSelectors r, cssRecordSelector # componentsSelectors)
             else pseudo_loop (pseudoClasses r) (customSelectors r) cssRecordSelector
                    componentsSelectors ([], []));
          scopePart = (case scope r of None \<Rightarrow> [] | Some sc \<Rightarrow> sc)
      in map (\<lambda>sel. scopePart @ sel) customSels
         @ map (\<lambda>sel. scopePart @ ''.'' @ sel) classSelectors)"

definition property_lines :: "CssRecordCompileParametersConfig \<Rightarrow> PropertiesType \<Rightarrow> string list" where
  "property_lines config props =
     (let indentation = (if minimize config then [] else [tab_char]);
          spacing = (if minimize config then [] else '' '')
      in map (\<lambda>(property, v). indentation @ property @ '':'' @ spacing @ v) (own_entries props))"

text \<open>The text \<open>generateCss\<close> stores in \<open>this.cache\<close> when it recomputes.\<close>

definition css_text :: "CssRecordCompileParametersConfig \<Rightarrow> CssRecord \<Rightarrow> string" where
  "css_text config r =
     (let newLine = (if minimize config then [] else [newline_char])
      in js_join ('','' @ newLine) (selector_variants config r (fst (components_loop (components r))))
         @ ''{'' @ newLine
         @ js_join ('';'' @ newLine) (property_lines config (properties r)) @ newLine
         @ ''}'' @ newLine)"

text \<open>
  \<open>generateCss\<close> returns the text and the record as it leaves it. \<open>!this.cache\<close> holds for
  \<open>null\<close> and for the empty string. The listeners of \<open>cssRecord:cssGenerated\<close> observe the
  record; the value \<open>callHook\<close> returns is dropped.
\<close>

definition regenerate ::
  "CssRecordCompileParametersConfig \<Rightarrow> CssRecord \<Rightarrow> string \<times> CssRecord" where
  "regenerate config r =
     (let css = css_text config r
      in (css, r\<lparr>components := snd (components_loop (components r)),
                  cache := Some css, changed := False\<rparr>))"

definition generateCss ::
  "CssRecordCompileParametersConfig \<Rightarrow> CssRecord \<Rightarrow> string \<times> CssRecord" where
  "generateCss config r =
     (case cache r of
        None \<Rightarrow> regenerate config r
      | Some cached \<Rightarrow> if changed r \<or> cached = [] then regenerate config r else (cached, r))"

section \<open>The legacy class \<open>CssRecord\<close> (default export)\<close>

record LegacyCssRecord =
  selectors :: "string list"
  legacy_properties :: PropertiesType
  legacy_pseudoClasses :: "string list"

text \<open>\<open>typeof this.properties[name] !== 'undefined'\<close>: the member read finds own and
  inherited properties.\<close>

definition legacy_hasProperty :: "string \<Rightarrow> LegacyCssRecord \<Rightarrow> bool" where
  "legacy_hasProperty name r = js_in name (legacy_properties r)"

definition legacy_addProperty :: "string \<Rightarrow> string \<Rightarrow> LegacyCssRecord \<Rightarrow> LegacyCssRecord" where
  "legacy_addProperty property v r =
     (if legacy_hasProperty property r then r
      else r\<lparr>legacy_properties := AList.update property v (legacy_properties r)\<rparr>)"

definition legacy_hasSelector :: "string \<Rightarrow> LegacyCssRecord \<Rightarrow> bool" where
  "legacy_hasSelector sel r = (sel \<in> set (selectors r))"

text \<open>\<open>addSelector(selector, pseudoClass = null)\<close>; \<open>if (pseudoClass)\<close> fails for \<open>null\<close> and
  for the empty string.\<close>

definition legacy_addSelector :: "string \<Rightarrow> string option \<Rightarrow> LegacyCssRecord \<Rightarrow> LegacyCssRecord" where
  "legacy_addSelector sel pseudoClass r =
     (let escaped = replace_non_ident sel;
          sel' = (case pseudoClass of
                    None \<Rightarrow> escaped
                  | Some pc \<Rightarrow> if pc = [] then escaped else escaped @ '':'' @ pc)
      in if legacy_hasSelector sel' r then r else r\<lparr>selectors := selectors r @ [sel']\<rparr>)"

text \<open>The constructor; a single string argument is the one-element array, \<open>null\<close> the
  empty one.\<close>

definition new_LegacyCssRecord ::
  "string list \<Rightarrow> PropertiesType \<Rightarrow> string list \<Rightarrow> LegacyCssRecord" where
  "new_LegacyCssRecord sels props pseudoClases =
     (fold (\<lambda>sel acc. legacy_addSelector sel None acc) sels
        \<lparr>selectors = [], legacy_properties = [], legacy_pseudoClasses = []\<rparr>)
       \<lparr>legacy_properties := props, legacy_pseudoClasses := pseudoClases\<rparr>"

definition legacy_compile :: "bool \<Rightarrow> LegacyCssRecord \<Rightarrow> string" where
  "legacy_compile minimize_flag r =
     (let newLine = (if minimize_flag then [] else [newline_char])
      in js_join ('','' @ newLine) (map (\<lambda>sel. ''.'' @ sel) (selectors r)) @ ''{'' @ newLine
         @ js_join ('';'' @ newLine)
             (map (\<lambda>(property, v). (if minimize_flag then [] else [tab_char]) @ property @ '':'' @ v)
                (own_entries (legacy_properties r)))
         @ newLine @ ''}'' @ newLine)"

text \<open>\<open>s.replace(/\\([^-_a-zA-Z\d])/g, '$1')\<close>: a backslash followed by a code unit outside
  the class is dropped.\<close>

fun unescape_non_ident :: "string \<Rightarrow> string" where
  "unescape_non_ident [] = []"
| "unescape_non_ident [c] = [c]"
| "unescape_non_ident (c # d # cs) =
     (if c = backslash \<and> \<not> is_ident_char d then d # unescape_non_ident cs
      else c # unescape_non_ident (d # cs))"

text \<open>The object \<open>serialize\<close> returns; \<open>pseudoClasses\<close> is a key of it only when
  \<open>this.properties.length\<close> is truthy, a member read on the properties object.\<close>

record SerializedCssRecord =
  ser_selectors :: "string list"
  ser_properties :: PropertiesType
  ser_pseudoClasses :: "string list option"

definition properties_length_truthy :: "PropertiesType \<Rightarrow> bool" where
  "properties_length_truthy props =
     (case map_of props ''length'' of None \<Rightarrow> False | Some v \<Rightarrow> v \<noteq> [])"

definition serialize :: "LegacyCssRecord \<Rightarrow> SerializedCssRecord" where
  "serialize r =
     \<lparr>ser_selectors = map unescape_non_ident (selectors r),
      ser_properties = legacy_properties r,
      ser_pseudoClasses =
        (if properties_length_truthy (legacy_properties r) then Some (legacy_pseudoClasses r)
         else None)\<rparr>"

text \<open>\<open>deserialize\<close>: a missing \<open>pseudoClasses\<close> takes the constructor's default \<open>[]\<close>.\<close>

definition deserialize :: "SerializedCssRecord \<Rightarrow> LegacyCssRecord" where
  "deserialize data =
     (new_LegacyCssRecord [] (ser_properties data)
        (case ser_pseudoClasses data of None \<Rightarrow> [] | Some pcs \<Rightarrow> pcs))
       \<lparr>selectors := ser_selectors data\<rparr>"

text \<open>\<open>hydrate\<close>: \<open>data.pseudoClasses.length\<close> is a member read on \<open>undefined\<close> when the
  key is missing.\<close>

definition hydrate :: "SerializedCssRecord \<Rightarrow> LegacyCssRecord \<Rightarrow> js_error + LegacyCssRecord" where
  "hydrate data r =
     (let r1 = fold (\<lambda>sel acc. legacy_addSelector sel None acc) (ser_selectors data) r
      in case ser_pseudoClasses data of
           None \<Rightarrow> Inl TypeError
         | Some pcs \<Rightarrow>
             (let r2 = (if pcs = [] then r1
                        else r1\<lparr>legacy_pseudoClasses :=
                                  legacy_pseudoClasses r1
                                  @ filter (\<lambda>pc. pc \<notin> set (legacy_pseudoClasses r1)) pcs\<rparr>)
              in Inr (fold (\<lambda>(property, v) acc. legacy_addProperty property v acc)
                        (own_entries (ser_properties data)) r2)))"

section \<open>The compiler around \<open>CssRecord\<close>\<close>

text \<open>
  Modelled from the spec: the match object of a macro's regular expression is not among
  the sources. It holds the matched text and the capture groups.
\<close>

record RegexMatch =
  matched_text :: string
  groups :: "string list"

text \<open>
  Modelled from the spec: \<open>MacroMatch\<close>, the view of one match that the compiler hands to a
  macro handler, is not among the sources. It holds the matched text, the capture groups
  and the parsed modifiers: the screen, the pseudo-classes, the scope, the alias and chain
  of a token that declares a component, and the components the token is a member of.
\<close>

record MacroMatch =
  fullMatch :: string
  captures :: "string list"
  match_screenId :: "int option"
  match_pseudoClasses :: "string list"
  match_scope :: "string option"
  declares_component :: "(string \<times> string list) option"
  component_membership :: CssRecordComponentsType

text \<open>
  Modelled from the spec: \<open>MacroMatch.getCapture\<close> is not among the sources. An index out
  of range fails, it does not return an empty text.
\<close>

definition getCapture :: "MacroMatch \<Rightarrow> nat \<Rightarrow> js_error + string" where
  "getCapture m i = (if i < length (captures m) then Inr (captures m ! i) else Inl InvalidCapture)"

text \<open>
  Modelled from the spec: \<open>SelectorProperties.add\<close> is not among the sources. It does
  nothing when the property is present; otherwise the candidate pair goes through the
  property-addition hook and what the hook returns is merged in.
\<close>

definition SelectorProperties_add ::
  "(PropertiesType \<Rightarrow> PropertiesType) \<Rightarrow> string \<Rightarrow> string \<Rightarrow> PropertiesType \<Rightarrow> PropertiesType" where
  "SelectorProperties_add hook property v props =
     (if property \<in> fst ` set props then props
      else object_spread props (hook [(property, v)]))"

text \<open>
  Modelled from the spec: the macro pattern table of the compiler is not among the
  sources. A macro is a pattern and a handler. The pattern is given by the matches it
  finds in a content, from left to right; the handler by the \<open>add\<close> calls it makes on the
  fresh \<open>SelectorProperties\<close>, or the error it raises.
\<close>

record Macro =
  find_matches :: "string \<Rightarrow> RegexMatch list"
  handler :: "MacroMatch \<Rightarrow> js_error + (string \<times> string) list"

text \<open>
  Modelled from the spec: the directives the content-option processors extract from a raw
  content are not among the sources: variable overrides, component definitions and the
  tokens to pregenerate. The compiler merges the first two into its tables by key; the
  caller compiles the tokens to pregenerate in a call of its own (\<open>Bundler.processBundle\<close>).
\<close>

record ContentOptions =
  opt_variables :: "string \<rightharpoonup> string"
  opt_components :: "string \<rightharpoonup> string list"
  opt_pregenerate :: string

text \<open>
  Modelled from the spec: the \<open>Compiler\<close> is not among the sources. It holds the macros in
  configured order, the scope it gives to every record, the table of variables and the
  table of component aliases, which a compilation changes, the configured content-option
  processors, the substitution of variables in a content, the parsers of the prefixes of a
  matched token (screen, pseudo-classes, declaration of a component alias), the
  components a token is a member of under a table of aliases, and, for rendering, the
  screens in ascending order with the media-query block of each.
\<close>

record Compiler =
  macros :: "Macro list"
  compiler_scope :: "string option"
  variables :: "string \<rightharpoonup> string"
  components_table :: "string \<rightharpoonup> string list"
  content_options :: "string \<Rightarrow> ContentOptions"
  substitute_variables :: "(string \<rightharpoonup> string) \<Rightarrow> string \<Rightarrow> string"
  parse_screenId :: "string \<Rightarrow> int option"
  parse_pseudoClasses :: "string \<Rightarrow> string list"
  parse_component :: "string \<Rightarrow> (string \<times> string list) option"
  membership :: "(string \<rightharpoonup> string list) \<Rightarrow> string \<Rightarrow> CssRecordComponentsType"
  screens :: "int list"
  media_block :: "int \<Rightarrow> string \<Rightarrow> string"

text \<open>
  Modelled from the spec: the construction of a \<open>MacroMatch\<close> from the match object and the
  compiler's context, the active scope and the table of component aliases as it is when
  the match is reached.
\<close>

definition construct_match ::
  "Compiler \<Rightarrow> (string \<rightharpoonup> string list) \<Rightarrow> RegexMatch \<Rightarrow> MacroMatch" where
  "construct_match c table rm =
     \<lparr>fullMatch = matched_text rm, captures = groups rm,
      match_screenId = parse_screenId c (matched_text rm),
      match_pseudoClasses = parse_pseudoClasses c (matched_text rm),
      match_scope = compiler_scope c,
      declares_component = parse_component c (matched_text rm),
      component_membership = membership c table (matched_text rm)\<rparr>"

text \<open>
  Modelled from the spec: the \<open>CompilationResult\<close> is not among the sources. It holds the
  records in creation order; the identity of a record is its stored selector, its screen
  and its scope.
\<close>

type_synonym CompilationResult = "CssRecord list"

definition record_identity :: "CssRecord \<Rightarrow> string option \<times> int option \<times> string option" where
  "record_identity r = (selector r, screenId r, scope r)"

text \<open>
  Modelled from the spec: the selector, screen and scope the compiler resolves for a
  match. The selector is the matched text, escaped as \<open>configure\<close> stores it; the scope
  comes from the compiler.
\<close>

definition canonical_selector :: "string \<Rightarrow> string" where
  "canonical_selector s =
     (let escaped = replace_non_ident s
      in if starts_with_digit escaped then backslash # CHR ''3'' # escaped else escaped)"

definition match_identity ::
  "Compiler \<Rightarrow> MacroMatch \<Rightarrow> string option \<times> int option \<times> string option" where
  "match_identity c m =
     (Some (canonical_selector (fullMatch m)), match_screenId m,
      (case compiler_scope c of None \<Rightarrow> None | Some sc \<Rightarrow> if sc = [] then None else Some sc))"

text \<open>
  Modelled from the spec: the properties a handler accumulates for one match, through
  \<open>SelectorProperties.add\<close> on a fresh accumulator.
\<close>

definition collect_properties ::
  "(PropertiesType \<Rightarrow> PropertiesType) \<Rightarrow> (string \<times> string) list \<Rightarrow> PropertiesType" where
  "collect_properties hook adds =
     fold (\<lambda>(property, v) acc. SelectorProperties_add hook property v acc) adds []"

text \<open>
  Modelled from the spec: merging the accumulated properties, the pseudo-classes and the
  component associations of a match into the record found for it, with the record's own
  \<open>addProperties\<close>, \<open>addPseudoClasses\<close> and \<open>addComponents\<close>.
\<close>

definition merge_match ::
  "(PropertiesType \<Rightarrow> PropertiesType) \<Rightarrow> PropertiesType \<Rightarrow> string list \<Rightarrow> CssRecordComponentsType
     \<Rightarrow> CssRecord \<Rightarrow> CssRecord" where
  "merge_match hook props pcs comps r =
     addComponents comps (addPseudoClasses (PseudoList pcs) (addProperties hook props r))"

text \<open>
  Modelled from the spec: the record the compiler creates for a match that has none yet,
  with the constructor of \<open>CssRecord\<close>; a matched token is to be generated.
\<close>

definition create_record ::
  "(string option \<Rightarrow> string) \<Rightarrow> (PropertiesType \<Rightarrow> PropertiesType) \<Rightarrow> Compiler \<Rightarrow> MacroMatch
     \<Rightarrow> PropertiesType \<Rightarrow> js_error + CssRecord" where
  "create_record mangle hook c m props =
     new_CssRecord mangle hook
       \<lparr>cfg_screenId = match_screenId m, cfg_selector = Some (fullMatch m),
        cfg_properties = Some props, cfg_customSelectors = None,
        cfg_components = Some (component_membership m),
        cfg_pseudoClasses = Some (match_pseudoClasses m), cfg_scope = compiler_scope c,
        cfg_shouldBeGenerated = Some True\<rparr>"

text \<open>
  Modelled from the spec: look up or create. The first record with the identity of the
  match receives the merge; when there is none, the created record is appended.
\<close>

fun lookup_or_create ::
  "string option \<times> int option \<times> string option \<Rightarrow> (CssRecord \<Rightarrow> CssRecord)
     \<Rightarrow> js_error + CssRecord \<Rightarrow> CompilationResult \<Rightarrow> js_error + CompilationResult" where
  "lookup_or_create key merge created [] =
     (case created of Inl e \<Rightarrow> Inl e | Inr r \<Rightarrow> Inr [r])"
| "lookup_or_create key merge created (r # rs) =
     (if record_identity r = key then Inr (merge r # rs)
      else (case lookup_or_create key merge created rs of
              Inl e \<Rightarrow> Inl e
            | Inr rs' \<Rightarrow> Inr (r # rs')))"

text \<open>
  Modelled from the spec: one match that declares no component alias. The handler runs on
  a fresh accumulator; its error ends the compilation, and no record is registered.
\<close>

definition process_match ::
  "(string option \<Rightarrow> string) \<Rightarrow> (PropertiesType \<Rightarrow> PropertiesType) \<Rightarrow> Compiler
     \<Rightarrow> Macro \<times> MacroMatch \<Rightarrow> CompilationResult \<Rightarrow> js_error + CompilationResult" where
  "process_match mangle hook c mm res =
     (case handler (fst mm) (snd mm) of
        Inl e \<Rightarrow> Inl e
      | Inr adds \<Rightarrow>
          (let props = collect_properties hook adds
           in lookup_or_create (match_identity c (snd mm))
                (merge_match hook props (match_pseudoClasses (snd mm))
                   (component_membership (snd mm)))
                (create_record mangle hook c (snd mm) props) res))"

text \<open>
  Modelled from the spec: the matches in order. A match that declares a component alias
  registers the alias and its chain in the table and emits nothing; every other match is
  processed into the result.
\<close>

fun process_matches ::
  "(string option \<Rightarrow> string) \<Rightarrow> (PropertiesType \<Rightarrow> PropertiesType) \<Rightarrow> Compiler
     \<Rightarrow> (Macro \<times> RegexMatch) list \<Rightarrow> (string \<rightharpoonup> string list) \<times> CompilationResult
     \<Rightarrow> js_error + (string \<rightharpoonup> string list) \<times> CompilationResult" where
  "process_matches mangle hook c [] state = Inr state"
| "process_matches mangle hook c (mr # rest) (table, res) =
     (let m = construct_match c table (snd mr)
      in case declares_component m of
           Some (alias, chain) \<Rightarrow>
             process_matches mangle hook c rest (table(alias \<mapsto> chain), res)
         | None \<Rightarrow>
             (case process_match mangle hook c (fst mr, m) res of
                Inl e \<Rightarrow> Inl e
              | Inr res' \<Rightarrow> process_matches mangle hook c rest (table, res')))"

text \<open>
  Modelled from the spec: the matches of a content, macro by macro in configured order,
  each macro's matches from left to right. For a token an earlier macro has matched, the
  first match wins: a later macro's match of the same text is dropped.
\<close>

fun macro_matches :: "Macro list \<Rightarrow> string \<Rightarrow> string list \<Rightarrow> (Macro \<times> RegexMatch) list" where
  "macro_matches [] content taken = []"
| "macro_matches (macro # rest) content taken =
     (let found = filter (\<lambda>rm. matched_text rm \<notin> set taken) (find_matches macro content)
      in map (\<lambda>rm. (macro, rm)) found
         @ macro_matches rest content (taken @ map matched_text found))"

definition all_matches :: "Compiler \<Rightarrow> string \<Rightarrow> (Macro \<times> RegexMatch) list" where
  "all_matches c content = macro_matches (macros c) content []"

text \<open>
  Modelled from the spec: the first step of a compilation. The processors extract the
  directives from the raw content, and the variable overrides and component definitions
  are merged by key into the compiler's tables.
\<close>

definition apply_directives :: "Compiler \<Rightarrow> string \<Rightarrow> Compiler" where
  "apply_directives c content =
     (let opts = content_options c content
      in c\<lparr>variables := variables c ++ opt_variables opts,
            components_table := components_table c ++ opt_components opts\<rparr>)"

text \<open>
  Modelled from the spec: \<open>compile(content, existingResult?)\<close>. The directives are
  applied, the variables are substituted, the content is scanned, and every match is
  processed into the existing result, or into an empty one when none is given. The call
  changes the compiler's tables: \<open>compile_step\<close> returns the compiler as the call leaves it
  with the result, \<open>compile\<close> the result alone.
\<close>

definition compile_step ::
  "(string option \<Rightarrow> string) \<Rightarrow> (PropertiesType \<Rightarrow> PropertiesType) \<Rightarrow> Compiler \<Rightarrow> string
     \<Rightarrow> CompilationResult option \<Rightarrow> js_error + Compiler \<times> CompilationResult" where
  "compile_step mangle hook c content existingResult =
     (let c1 = apply_directives c content;
          scanned = substitute_variables c1 (variables c1) content
      in case process_matches mangle hook c1 (all_matches c1 scanned)
                (components_table c1, (case existingResult of None \<Rightarrow> [] | Some res \<Rightarrow> res)) of
           Inl e \<Rightarrow> Inl e
         | Inr (table, res) \<Rightarrow> Inr (c1\<lparr>components_table := table\<rparr>, res))"

definition compile ::
  "(string option \<Rightarrow> string) \<Rightarrow> (PropertiesType \<Rightarrow> PropertiesType) \<Rightarrow> Compiler \<Rightarrow> string
     \<Rightarrow> CompilationResult option \<Rightarrow> js_error + CompilationResult" where
  "compile mangle hook c content existingResult =
     (case compile_step mangle hook c content existingResult of
        Inl e \<Rightarrow> Inl e
      | Inr (c', res) \<Rightarrow> Inr res)"



text \<open>
  Modelled from the spec: the macro of the scenario, the pattern \<open>m:(\S+)\<close> with a handler
  that adds \<open>margin\<close> with the first capture. \<open>scan_m skip s\<close> lists the matches in \<open>s\<close>,
  where the first \<open>skip\<close> characters belong to the match before. The compiler of the
  scenario has this macro and nothing else: no variables, no components, no directives,
  no prefixes.
\<close>

fun scan_m :: "nat \<Rightarrow> string \<Rightarrow> RegexMatch list" where
  "scan_m skip [] = []"
| "scan_m (Suc skip) (c # cs) = scan_m skip cs"
| "scan_m 0 (c # cs) =
     (let capture = takeWhile (\<lambda>x. \<not> is_space x) (drop 1 cs)
      in if c = CHR ''m'' \<and> take 1 cs = '':'' \<and> capture \<noteq> []
         then \<lparr>matched_text = ''m:'' @ capture, groups = [capture]\<rparr>
              # scan_m (Suc (length capture)) cs
         else scan_m 0 cs)"

definition margin_macro :: Macro where
  "margin_macro =
     \<lparr>find_matches = scan_m 0,
      handler = (\<lambda>m. case getCapture m 0 of Inl e \<Rightarrow> Inl e | Inr v \<Rightarrow> Inr [(''margin'', v)])\<rparr>"

definition no_options :: ContentOptions where
  "no_options = \<lparr>opt_variables = Map.empty, opt_components = Map.empty, opt_pregenerate = []\<rparr>"

definition margin_compiler :: Compiler where
  "margin_compiler =
     \<lparr>macros = [margin_macro], compiler_scope = None, variables = Map.empty,
      components_table = Map.empty, content_options = (\<lambda>content. no_options),
      substitute_variables = (\<lambda>table content. content),
      parse_screenId = (\<lambda>token. None), parse_pseudoClasses = (\<lambda>token. []),
      parse_component = (\<lambda>token. None), membership = (\<lambda>table token. []),
      screens = [], media_block = (\<lambda>sid css. css)\<rparr>"

section \<open>Concrete inputs\<close>

text \<open>A listener of \<open>cssRecord:addProperty\<close> that adds a colour to every margin.\<close>

definition shorthand_hook :: "PropertiesType \<Rightarrow> PropertiesType" where
  "shorthand_hook payload =
     (case payload of
        [(name, v)] \<Rightarrow> if name = ''margin'' then [(''margin'', v), (''color'', ''blue'')] else payload
      | _ \<Rightarrow> payload)"

text \<open>
  The canonical selector in the words of the specification: every character that is not
  alphanumeric, \<open>-\<close> or \<open>_\<close> is prefixed by a backslash, and a selector that begins with a
  digit receives the prefix \<open>\3\<close>, which with the digit forms the hexadecimal escape of the
  digit.
\<close>

definition spec_plain_char :: "char \<Rightarrow> bool" where
  "spec_plain_char c =
     (c \<in> set ''abcdefghijklmnopqrstuvwxyzABCDEFGHIJKLMNOPQRSTUVWXYZ0123456789''
      \<or> c = CHR ''-'' \<or> c = CHR ''_'')"

definition spec_canonical_selector :: "string \<Rightarrow> string" where
  "spec_canonical_selector s =
     (case s of
        [] \<Rightarrow> []
      | c # _ \<Rightarrow> if c \<in> set ''0123456789'' then [backslash, CHR ''3''] else [])
     @ concat (map (\<lambda>c. if spec_plain_char c then [c] else [backslash, c]) s)"

text \<open>A config with a screen and nothing else, and the record a fresh record is left as
  when \<open>configure\<close> throws on it.\<close>

definition screen_only_config :: CssRecordConfigInterface where
  "screen_only_config = empty_config\<lparr>cfg_screenId := Some 1\<rparr>"

definition half_configured_record :: CssRecord where
  "half_configured_record =
     initial_CssRecord\<lparr>mangledSelector := Some ''undefined'', screenId := Some 1\<rparr>"

text \<open>A record with two pseudo-classes, as the constructor builds it.\<close>

definition two_pseudo_config :: CssRecordConfigInterface where
  "two_pseudo_config =
     empty_config\<lparr>cfg_selector := Some ''btn'', cfg_pseudoClasses := Some [''hover'', ''focus'']\<rparr>"

definition two_pseudo_record :: CssRecord where
  "two_pseudo_record =
     \<lparr>changed = True, cache = None, shouldBeGenerated = False, selector = Some ''btn'',
      mangledSelector = Some ''btn'', screenId = None, scope = None, customSelectors = [],
      components = [], properties = [], pseudoClasses = [''hover'', ''focus'']\<rparr>"

text \<open>A legacy record with one selector, one property and one pseudo-class.\<close>

definition legacy_sample :: LegacyCssRecord where
  "legacy_sample = new_LegacyCssRecord [''m:10px''] [(''margin'', ''10px'')] [''hover'']"

text \<open>The record of the scenario \<open>m:10px\<close>, but for its mangled selector.\<close>

definition margin_record :: CssRecord where
  "margin_record =
     \<lparr>changed = True, cache = None, shouldBeGenerated = True,
      selector = Some (''m'' @ [backslash] @ '':10px''), mangledSelector = None,
      screenId = None, scope = None, customSelectors = [], components = [],
      properties = [(''margin'', ''10px'')], pseudoClasses = []\<rparr>"

text \<open>The hook registry without listeners returns the payload; a mangler that keeps the
  selector and prints \<open>undefined\<close> as such.\<close>

definition no_listener :: "PropertiesType \<Rightarrow> PropertiesType" where
  "no_listener payload = payload"

definition plain_mangler :: "string option \<Rightarrow> string" where
  "plain_mangler s = (case s of None \<Rightarrow> ''undefined'' | Some t \<Rightarrow> t)"
















section \<open>Notions for the proofs about the compiler\<close>

text \<open>
  A record absorbs a match when merging the match leaves it as it is: it is marked as
  changed (or the match has no property), every property name of the match is in its
  properties, it has every pseudo-class of the match, and every component of the match is
  in its components. A result covers a match when the first record with the identity of
  the match absorbs it.
\<close>

definition absorbs ::
  "CssRecord \<Rightarrow> PropertiesType \<Rightarrow> string list \<Rightarrow> CssRecordComponentsType \<Rightarrow> bool" where
  "absorbs r props pcs comps =
     ((own_entries props = [] \<or> changed r)
      \<and> list_all (\<lambda>e. js_in (fst e) (properties r)) (own_entries props)
      \<and> list_all (\<lambda>pc. pc \<in> set (pseudoClasses r)) pcs
      \<and> list_all (\<lambda>e. js_in (replace_non_ident (fst e)) (components r)) (own_entries comps))"




text \<open>
  The matches of a pass that declare no component alias, as the pass constructs them, the
  table the pass ends with, and the processing of constructed matches into a result.
\<close>

fun literal_matches ::
  "Compiler \<Rightarrow> (string \<rightharpoonup> string list) \<Rightarrow> (Macro \<times> RegexMatch) list \<Rightarrow> (Macro \<times> MacroMatch) list" where
  "literal_matches c table [] = []"
| "literal_matches c table (mr # rest) =
     (let m = construct_match c table (snd mr)
      in case declares_component m of
           Some (alias, chain) \<Rightarrow> literal_matches c (table(alias \<mapsto> chain)) rest
         | None \<Rightarrow> (fst mr, m) # literal_matches c table rest)"

fun final_table ::
  "Compiler \<Rightarrow> (string \<rightharpoonup> string list) \<Rightarrow> (Macro \<times> RegexMatch) list \<Rightarrow> (string \<rightharpoonup> string list)" where
  "final_table c table [] = table"
| "final_table c table (mr # rest) =
     (case declares_component (construct_match c table (snd mr)) of
        Some (alias, chain) \<Rightarrow> final_table c (table(alias \<mapsto> chain)) rest
      | None \<Rightarrow> final_table c table rest)"

fun process_literals ::
  "(string option \<Rightarrow> string) \<Rightarrow> (PropertiesType \<Rightarrow> PropertiesType) \<Rightarrow> Compiler
     \<Rightarrow> (Macro \<times> MacroMatch) list \<Rightarrow> CompilationResult \<Rightarrow> js_error + CompilationResult" where
  "process_literals mangle hook c [] res = Inr res"
| "process_literals mangle hook c (mm # rest) res =
     (case process_match mangle hook c mm res of
        Inl e \<Rightarrow> Inl e
      | Inr res' \<Rightarrow> process_literals mangle hook c rest res')"

text \<open>
  Modelled from the spec: the matches a compilation of a content with the compiler \<open>c\<close>
  constructs and merges into the result, in the order of the content: the tokens it finds
  after the directives and the variables of the content are applied, each with its macro,
  its screen, its pseudo-classes and the components it is a member of when the pass
  reaches it.
\<close>

definition constructed_matches :: "Compiler \<Rightarrow> string \<Rightarrow> (Macro \<times> MacroMatch) list" where
  "constructed_matches c content =
     (let c1 = apply_directives c content
      in literal_matches c1 (components_table c1)
           (all_matches c1 (substitute_variables c1 (variables c1) content)))"

section \<open>Plain objects: lookups after a spread\<close>

lemma set_Object_keys: "set (Object_keys obj) = fst ` set obj"
  by (auto simp: Object_keys_def Let_def)

lemma map_of_entries_aux:
  "map_of (concat (map (\<lambda>k. case m k of None \<Rightarrow> [] | Some v \<Rightarrow> [(k, v)]) ks)) x =
     (if x \<in> set ks then m x else None)"
  by (induction ks) (auto split: option.splits)

lemma map_of_key: "x \<in> fst ` set obj \<Longrightarrow> \<exists>v. map_of obj x = Some v"
  using map_of_eq_None_iff [of obj x] by (cases "map_of obj x") auto

lemma map_of_not_key: "x \<notin> fst ` set obj \<Longrightarrow> map_of obj x = None"
  using map_of_eq_None_iff [of obj x] by blast

lemma map_of_own_entries: "map_of (own_entries obj) = map_of obj"
proof
  fix x
  show "map_of (own_entries obj) x = map_of obj x"
    unfolding own_entries_def map_of_entries_aux set_Object_keys
    using map_of_not_key [of x obj] by (cases "x \<in> fst ` set obj") simp_all
qed

lemma own_entries_sound: "(k, v) \<in> set (own_entries obj) \<Longrightarrow> map_of obj k = Some v"
  by (auto simp: own_entries_def split: option.splits)

lemma keys_own_entries: "fst ` set (own_entries obj) = fst ` set obj"
proof -
  have "fst ` set (own_entries obj) = dom (map_of (own_entries obj))"
    by (simp add: dom_map_of_conv_image_fst)
  then show ?thesis
    by (simp add: map_of_own_entries dom_map_of_conv_image_fst)
qed

lemma map_of_fold_update:
  "(\<And>k v. (k, v) \<in> set es \<Longrightarrow> m k = Some v) \<Longrightarrow>
   map_of (fold (\<lambda>(k, v) acc. AList.update k v acc) es acc) x =
     (if x \<in> fst ` set es then m x else map_of acc x)"
proof (induction es arbitrary: acc)
  case Nil
  then show ?case by simp
next
  case (Cons e es)
  obtain k v where e: "e = (k, v)" by (cases e)
  have mk: "m k = Some v" using Cons.prems [of k v] e by simp
  have "map_of (fold (\<lambda>(k, v) acc. AList.update k v acc) es (AList.update k v acc)) x =
        (if x \<in> fst ` set es then m x else map_of (AList.update k v acc) x)"
    by (rule Cons.IH) (use Cons.prems in auto)
  then show ?case using mk e
    by (auto simp: update_conv')
qed

lemma map_of_object_spread: "map_of (object_spread a b) = map_of a ++ map_of b"
proof
  fix x
  have inner: "map_of (fold (\<lambda>(k, v) acc. AList.update k v acc) (own_entries a) []) x = map_of a x"
  proof -
    have "map_of (fold (\<lambda>(k, v) acc. AList.update k v acc) (own_entries a) []) x =
          (if x \<in> fst ` set (own_entries a) then map_of a x else map_of [] x)"
      by (rule map_of_fold_update) (simp add: own_entries_sound)
    then show ?thesis
      using map_of_not_key [of x a] by (cases "x \<in> fst ` set a") (simp_all add: keys_own_entries)
  qed
  have "map_of (object_spread a b) x =
        (if x \<in> fst ` set (own_entries b) then map_of b x
         else map_of (fold (\<lambda>(k, v) acc. AList.update k v acc) (own_entries a) []) x)"
    unfolding object_spread_def fold_append comp_def
    by (rule map_of_fold_update) (simp add: own_entries_sound)
  then show "map_of (object_spread a b) x = (map_of a ++ map_of b) x"
    using map_of_not_key [of x b] map_of_key [of x b]
    by (cases "x \<in> fst ` set b") (auto simp: inner keys_own_entries map_add_def)
qed


section \<open>First write wins\<close>

text \<open>
  C1. Once a property name is a key of \<open>properties\<close>, \<open>addProperty\<close> with that name
  returns the record as it is. When the name is new and the hook's result holds the name
  with value \<open>w\<close> (with no listener the hook returns its payload, so \<open>w\<close> is the value of
  the call), the first call stores \<open>w\<close> and a second call with any other value changes
  nothing. The legacy class behaves the same way.
\<close>

theorem addProperty_first_write_wins:
  "(property \<in> fst ` set (properties r) \<longrightarrow> addProperty hook property v2 r = r)
   \<and> (\<not> js_in property (properties r) \<and> map_of (hook [(property, v1)]) property = Some w \<longrightarrow>
        map_of (properties (addProperty hook property v1 r)) property = Some w
        \<and> addProperty hook property v2 (addProperty hook property v1 r)
            = addProperty hook property v1 r)
   \<and> (property \<in> fst ` set (legacy_properties l) \<longrightarrow> legacy_addProperty property v2 l = l)
   \<and> (\<not> legacy_hasProperty property l \<longrightarrow>
        map_of (legacy_properties (legacy_addProperty property v1 l)) property = Some v1
        \<and> legacy_addProperty property v2 (legacy_addProperty property v1 l)
            = legacy_addProperty property v1 l)"
proof (intro conjI impI)
  assume "property \<in> fst ` set (properties r)"
  then show "addProperty hook property v2 r = r"
    by (simp add: addProperty_def js_in_def)
next
  assume a: "\<not> js_in property (properties r) \<and> map_of (hook [(property, v1)]) property = Some w"
  then show stored: "map_of (properties (addProperty hook property v1 r)) property = Some w"
    by (simp add: addProperty_def map_of_object_spread)
  then have "property \<in> fst ` set (properties (addProperty hook property v1 r))"
    by (force dest: map_of_SomeD)
  then show "addProperty hook property v2 (addProperty hook property v1 r)
      = addProperty hook property v1 r"
    unfolding addProperty_def [of hook property v2] by (simp add: js_in_def)
next
  assume "property \<in> fst ` set (legacy_properties l)"
  then show "legacy_addProperty property v2 l = l"
    by (simp add: legacy_addProperty_def legacy_hasProperty_def js_in_def)
next
  assume a: "\<not> legacy_hasProperty property l"
  then show "map_of (legacy_properties (legacy_addProperty property v1 l)) property = Some v1"
    by (simp add: legacy_addProperty_def update_conv')
  show "legacy_addProperty property v2 (legacy_addProperty property v1 l)
      = legacy_addProperty property v1 l"
    using a by (simp add: legacy_addProperty_def legacy_hasProperty_def js_in_def dom_update)
qed

theorem addProperty_first_write_wins_witness:
  "map_of (properties (addProperty (\<lambda>payload. payload) ''margin'' ''20px''
       (addProperty (\<lambda>payload. payload) ''margin'' ''10px'' initial_CssRecord))) ''margin''
     = Some ''10px''
   \<and> map_of (legacy_properties (legacy_addProperty ''margin'' ''20px''
       (legacy_addProperty ''margin'' ''10px'' (new_LegacyCssRecord [] [] [])))) ''margin''
     = Some ''10px''"
proof -
  have fresh: "\<not> js_in ''margin'' (properties initial_CssRecord)"
    by (simp add: js_in_def initial_CssRecord_def Object_prototype_keys_def)
  have fresh_legacy: "\<not> legacy_hasProperty ''margin'' (new_LegacyCssRecord [] [] [])"
    by (simp add: legacy_hasProperty_def js_in_def new_LegacyCssRecord_def
        Object_prototype_keys_def)
  show ?thesis
    using fresh fresh_legacy
      addProperty_first_write_wins [of "''margin''" initial_CssRecord "\<lambda>payload. payload"
        "''20px''" "''10px''" "''10px''" "new_LegacyCssRecord [] [] []"]
    by simp
qed

section \<open>What the hook returns is merged as a whole\<close>

text \<open>
  C8. When the name passed to \<open>addProperty\<close> is not yet in \<open>properties\<close> (the test of the
  source is \<open>property in this.properties\<close>), the new \<open>properties\<close> is the spread of the old
  one and the hook's result: every key of the hook's result holds the hook's value
  afterwards, also a key that had a value before, and every other key keeps its value.
\<close>

theorem addProperty_merges_hook_result:
  "\<not> js_in property (properties r) \<Longrightarrow>
     properties (addProperty hook property v r)
       = object_spread (properties r) (hook [(property, v)])
     \<and> map_of (properties (addProperty hook property v r))
         = map_of (properties r) ++ map_of (hook [(property, v)])
     \<and> (\<forall>q w. map_of (hook [(property, v)]) q = Some w \<longrightarrow>
           map_of (properties (addProperty hook property v r)) q = Some w)
     \<and> (\<forall>q. q \<notin> fst ` set (hook [(property, v)]) \<longrightarrow>
           map_of (properties (addProperty hook property v r)) q = map_of (properties r) q)"
proof -
  assume fresh: "\<not> js_in property (properties r)"
  have props: "properties (addProperty hook property v r)
      = object_spread (properties r) (hook [(property, v)])"
    using fresh by (simp add: addProperty_def)
  have lookup: "map_of (properties (addProperty hook property v r))
      = map_of (properties r) ++ map_of (hook [(property, v)])"
    by (simp add: props map_of_object_spread)
  have kept: "map_of (properties (addProperty hook property v r)) q = map_of (properties r) q"
    if "q \<notin> fst ` set (hook [(property, v)])" for q
    using that map_of_not_key [of q "hook [(property, v)]"] by (simp add: lookup map_add_def)
  show ?thesis
    using props lookup kept by (simp add: map_add_def)
qed

theorem addProperty_merges_hook_result_witness:
  "\<not> js_in ''margin'' (properties (initial_CssRecord\<lparr>properties := [(''color'', ''red'')]\<rparr>))
   \<and> map_of (properties (addProperty shorthand_hook ''margin'' ''10px''
          (initial_CssRecord\<lparr>properties := [(''color'', ''red'')]\<rparr>))) ''color'' = Some ''blue''"
proof -
  have fresh: "\<not> js_in ''margin'' (properties (initial_CssRecord\<lparr>properties := [(''color'', ''red'')]\<rparr>))"
    by (simp add: js_in_def initial_CssRecord_def Object_prototype_keys_def)
  have hook: "map_of (shorthand_hook [(''margin'', ''10px'')]) ''color'' = Some ''blue''"
    by (simp add: shorthand_hook_def)
  show ?thesis
    using fresh hook
      addProperty_merges_hook_result [OF fresh, of shorthand_hook "''10px''"]
    by blast
qed

section \<open>The dirty flag and the cache\<close>

lemma addProperty_keeps_changed: "changed r \<Longrightarrow> changed (addProperty hook p v r)"
  by (simp add: addProperty_def Let_def)

lemma addProperty_same_or_changed:
  "addProperty hook p v r = r \<or> changed (addProperty hook p v r)"
  by (simp add: addProperty_def Let_def)

lemma addProperties_fold_changed:
  "changed r \<Longrightarrow>
   changed (fold (\<lambda>(property, v) acc. addProperty hook property v (acc\<lparr>changed := True\<rparr>)) es r)"
  by (induction es arbitrary: r) (auto simp: addProperty_keeps_changed)

lemma addProperties_same_or_changed:
  "addProperties hook props r = r \<or> changed (addProperties hook props r)"
proof (cases "own_entries props")
  case Nil
  then show ?thesis by (simp add: addProperties_def)
next
  case (Cons e es)
  obtain p v where e: "e = (p, v)" by (cases e)
  have "changed (addProperty hook p v (r\<lparr>changed := True\<rparr>))"
    by (rule addProperty_keeps_changed) simp
  then show ?thesis
    by (simp add: addProperties_def Cons e addProperties_fold_changed)
qed

lemma pseudoClasses_loop_keeps_changed: "changed r \<Longrightarrow> changed (pseudoClasses_loop xs r)"
  by (induction xs arbitrary: r) auto

lemma pseudoClasses_loop_same_or_changed:
  "pseudoClasses_loop xs r = r \<or> changed (pseudoClasses_loop xs r)"
  by (induction xs arbitrary: r) (auto simp: pseudoClasses_loop_keeps_changed)

lemma addPseudoClasses_same_or_changed:
  "addPseudoClasses arg r = r \<or> changed (addPseudoClasses arg r)"
  by (simp add: addPseudoClasses_def pseudoClasses_loop_same_or_changed)

lemma addComponent_keeps_changed: "changed r \<Longrightarrow> changed (addComponent sel chain r)"
  by (simp add: addComponent_def Let_def)

lemma addComponent_same_or_changed:
  "addComponent sel chain r = r \<or> changed (addComponent sel chain r)"
  by (simp add: addComponent_def Let_def)

lemma addComponents_fold_keeps_changed:
  "changed r \<Longrightarrow>
   changed (fold (\<lambda>(componentSelector, chain) acc. addComponent componentSelector chain acc) es r)"
  by (induction es arbitrary: r) (auto simp: addComponent_keeps_changed)

lemma addComponents_fold_same_or_changed:
  "fold (\<lambda>(componentSelector, chain) acc. addComponent componentSelector chain acc) es r = r
   \<or> changed (fold (\<lambda>(componentSelector, chain) acc. addComponent componentSelector chain acc) es r)"
proof (induction es arbitrary: r)
  case Nil
  then show ?case by simp
next
  case (Cons e es)
  obtain k c where e: "e = (k, c)" by (cases e)
  show ?case
    using addComponent_same_or_changed [of k c r] Cons.IH [of r]
      addComponents_fold_keeps_changed [of "addComponent k c r" es]
    by (auto simp: e)
qed

lemma addComponents_same_or_changed:
  "addComponents comps r = r \<or> changed (addComponents comps r)"
  by (simp add: addComponents_def addComponents_fold_same_or_changed)

lemma configure_same_or_changed:
  "configure mangle hook config r = Inr r' \<Longrightarrow> r' = r \<or> changed r'"
  by (auto simp: configure_def Let_def split: if_splits option.splits)

lemma css_text_not_empty: "css_text config r \<noteq> []"
  by (simp add: css_text_def Let_def)

lemma generateCss_dirty:
  "changed r \<or> cache r = None \<or> cache r = Some [] \<Longrightarrow> generateCss config r = regenerate config r"
  by (auto simp: generateCss_def split: option.splits)

lemma generateCss_clean:
  "\<not> changed r \<Longrightarrow> cache r = Some cached \<Longrightarrow> cached \<noteq> [] \<Longrightarrow> generateCss config r = (cached, r)"
  by (simp add: generateCss_def)

lemma generateCss_result:
  "\<not> changed (snd (generateCss config r))
   \<and> cache (snd (generateCss config r)) = Some (fst (generateCss config r))
   \<and> fst (generateCss config r) \<noteq> []"
  by (auto simp: generateCss_def regenerate_def Let_def css_text_not_empty split: option.splits)

lemma generateCss_again:
  "generateCss config' (snd (generateCss config r)) = generateCss config r"
  using generateCss_result [of config r]
    generateCss_clean [of "snd (generateCss config r)" "fst (generateCss config r)" config']
  by simp

text \<open>
  C3, as the claim states it. \<open>configure\<close> with a config that has a screen and no selector
  throws after it has assigned \<open>mangledSelector\<close> and \<open>screenId\<close>: the call changes the
  fresh record and leaves \<open>changed\<close> unset.
\<close>

theorem changed_flag_counterexample:
  "configure plain_mangler no_listener screen_only_config initial_CssRecord
     = Inl (TypeError, half_configured_record)
   \<and> half_configured_record \<noteq> initial_CssRecord
   \<and> screenId half_configured_record = Some 1
   \<and> \<not> changed half_configured_record"
  by (simp add: configure_def screen_only_config_def half_configured_record_def empty_config_def
      config_keys_length_def count_present_def initial_CssRecord_def plain_mangler_def Let_def)

text \<open>
  C3, amended. A call of \<open>addProperty\<close>, \<open>addProperties\<close>, \<open>addPseudoClasses\<close>,
  \<open>addComponent\<close> or \<open>addComponents\<close>, or a call of \<open>configure\<close> that returns without
  throwing, that leaves the record other than it received it leaves it with \<open>changed\<close> set.
  \<open>generateCss\<close> computes the text anew when \<open>changed\<close> is set or the cache is \<open>null\<close> or
  empty, stores it and clears the flag; otherwise it returns the cached text and leaves
  the record as it is. A second \<open>generateCss\<close> right after the first returns the same text
  and the same record, whatever parameters it is given.
\<close>

theorem changed_flag_and_cache:
  "(addProperty hook p v r \<noteq> r \<longrightarrow> changed (addProperty hook p v r))
   \<and> (addProperties hook props r \<noteq> r \<longrightarrow> changed (addProperties hook props r))
   \<and> (addPseudoClasses arg r \<noteq> r \<longrightarrow> changed (addPseudoClasses arg r))
   \<and> (addComponent sel chain r \<noteq> r \<longrightarrow> changed (addComponent sel chain r))
   \<and> (addComponents comps r \<noteq> r \<longrightarrow> changed (addComponents comps r))
   \<and> (\<forall>r'. configure mangle hook config r = Inr r' \<and> r' \<noteq> r \<longrightarrow> changed r')
   \<and> (changed r \<or> cache r = None \<or> cache r = Some [] \<longrightarrow>
        fst (generateCss params r) = css_text params r
        \<and> cache (snd (generateCss params r)) = Some (css_text params r)
        \<and> \<not> changed (snd (generateCss params r)))
   \<and> (\<forall>cached. \<not> changed r \<and> cache r = Some cached \<and> cached \<noteq> [] \<longrightarrow>
        generateCss params r = (cached, r))
   \<and> generateCss params' (snd (generateCss params r))
        = (fst (generateCss params r), snd (generateCss params r))"
proof -
  have dirty: "fst (generateCss params r) = css_text params r
      \<and> cache (snd (generateCss params r)) = Some (css_text params r)
      \<and> \<not> changed (snd (generateCss params r))"
    if "changed r \<or> cache r = None \<or> cache r = Some []"
    using generateCss_dirty [OF that, of params] by (simp add: regenerate_def Let_def)
  show ?thesis
    using addProperty_same_or_changed [of hook p v r]
      addProperties_same_or_changed [of hook props r]
      addPseudoClasses_same_or_changed [of arg r]
      addComponent_same_or_changed [of sel chain r]
      addComponents_same_or_changed [of comps r]
      configure_same_or_changed [of mangle hook config r]
      dirty generateCss_clean [of r _ params] generateCss_again [of params' params r]
    by (intro conjI) (blast | simp)+
qed


theorem changed_flag_and_cache_witness:
  "changed (addProperty (\<lambda>payload. payload) ''margin'' ''10px'' initial_CssRecord)
   \<and> changed (addPseudoClasses (PseudoOne ''hover'') initial_CssRecord)
   \<and> changed (addComponent ''btn'' [] initial_CssRecord)
   \<and> fst (generateCss \<lparr>minimize = False, mangleSelectors = False\<rparr> initial_CssRecord)
       = css_text \<lparr>minimize = False, mangleSelectors = False\<rparr> initial_CssRecord
   \<and> \<not> changed (snd (generateCss \<lparr>minimize = False, mangleSelectors = False\<rparr> initial_CssRecord))
   \<and> fst (generateCss \<lparr>minimize = True, mangleSelectors = False\<rparr>
          (snd (generateCss \<lparr>minimize = False, mangleSelectors = False\<rparr> initial_CssRecord)))
       = css_text \<lparr>minimize = False, mangleSelectors = False\<rparr> initial_CssRecord"
proof -
  have p: "addProperty (\<lambda>payload. payload) ''margin'' ''10px'' initial_CssRecord \<noteq> initial_CssRecord"
    by (simp add: addProperty_def js_in_def initial_CssRecord_def Object_prototype_keys_def)
  have c: "addPseudoClasses (PseudoOne ''hover'') initial_CssRecord \<noteq> initial_CssRecord"
    by (simp add: addPseudoClasses_def initial_CssRecord_def)
  have k: "addComponent ''btn'' [] initial_CssRecord \<noteq> initial_CssRecord"
    by (simp add: addComponent_def js_in_def initial_CssRecord_def Object_prototype_keys_def
        is_ident_char_def is_digit_def)
  have n: "cache initial_CssRecord = None"
    by (simp add: initial_CssRecord_def)
  note facts = changed_flag_and_cache [of "\<lambda>payload. payload" "''margin''" "''10px''"
      initial_CssRecord "[]" "PseudoOne ''hover''" "''btn''" "[]" "[]" plain_mangler empty_config
      "\<lparr>minimize = False, mangleSelectors = False\<rparr>"
      "\<lparr>minimize = True, mangleSelectors = False\<rparr>"]
  have again: "fst (generateCss \<lparr>minimize = True, mangleSelectors = False\<rparr>
          (snd (generateCss \<lparr>minimize = False, mangleSelectors = False\<rparr> initial_CssRecord)))
       = fst (generateCss \<lparr>minimize = False, mangleSelectors = False\<rparr> initial_CssRecord)"
    using facts by (metis fst_conv)
  show ?thesis
    using p c k n facts again by metis
qed

section \<open>Custom selectors and the cache\<close>

text \<open>
  C9. \<open>addCustomSelector\<close> appends a selector that is not yet in \<open>customSelectors\<close> and
  leaves \<open>changed\<close> and \<open>cache\<close> as they are. So after a \<open>generateCss\<close>, adding a custom
  selector and calling \<open>generateCss\<close> again returns the text of the first call, rendered
  before the selector was added, and recomputes nothing.
\<close>

theorem addCustomSelector_leaves_cache_stale:
  "changed (addCustomSelector sel r) = changed r
   \<and> cache (addCustomSelector sel r) = cache r
   \<and> (sel \<notin> set (customSelectors r) \<longrightarrow>
        customSelectors (addCustomSelector sel r) = customSelectors r @ [sel])
   \<and> generateCss params' (addCustomSelector sel (snd (generateCss params r)))
        = (fst (generateCss params r), addCustomSelector sel (snd (generateCss params r)))"
proof -
  let ?r1 = "snd (generateCss params r)"
  have flags: "changed (addCustomSelector sel r) = changed r"
    "cache (addCustomSelector sel r) = cache r"
    by (simp_all add: addCustomSelector_def)
  have appended: "customSelectors (addCustomSelector sel r) = customSelectors r @ [sel]"
    if "sel \<notin> set (customSelectors r)"
    using that by (simp add: addCustomSelector_def)
  have "\<not> changed (addCustomSelector sel ?r1)"
    "cache (addCustomSelector sel ?r1) = Some (fst (generateCss params r))"
    "fst (generateCss params r) \<noteq> []"
    using generateCss_result [of params r] by (simp_all add: addCustomSelector_def)
  then have "generateCss params' (addCustomSelector sel ?r1)
      = (fst (generateCss params r), addCustomSelector sel ?r1)"
    by (rule generateCss_clean)
  then show ?thesis
    using flags appended by simp
qed

theorem addCustomSelector_leaves_cache_stale_witness:
  "fst (generateCss \<lparr>minimize = True, mangleSelectors = False\<rparr>
          (addCustomSelector ''a'' (snd (generateCss \<lparr>minimize = True, mangleSelectors = False\<rparr>
             (initial_CssRecord\<lparr>selector := Some ''b''\<rparr>)))))
     = ''.b{}''
   \<and> css_text \<lparr>minimize = True, mangleSelectors = False\<rparr>
          (addCustomSelector ''a'' (snd (generateCss \<lparr>minimize = True, mangleSelectors = False\<rparr>
             (initial_CssRecord\<lparr>selector := Some ''b''\<rparr>))))
     = ''a,.b{}''"
proof -
  have first: "fst (generateCss \<lparr>minimize = True, mangleSelectors = False\<rparr>
      (initial_CssRecord\<lparr>selector := Some ''b''\<rparr>)) = ''.b{}''"
    by (simp add: generateCss_def regenerate_def css_text_def selector_variants_def
        components_loop_def own_entries_def Object_keys_def property_lines_def
        initial_CssRecord_def js_to_string_def Let_def)
  have fresh: "''a'' \<notin> set (customSelectors (initial_CssRecord\<lparr>selector := Some ''b''\<rparr>))"
    by (simp add: initial_CssRecord_def)
  have recomputed: "css_text \<lparr>minimize = True, mangleSelectors = False\<rparr>
          (addCustomSelector ''a'' (snd (generateCss \<lparr>minimize = True, mangleSelectors = False\<rparr>
             (initial_CssRecord\<lparr>selector := Some ''b''\<rparr>))))
     = ''a,.b{}''"
    by (simp add: generateCss_def regenerate_def css_text_def selector_variants_def
        components_loop_def own_entries_def Object_keys_def property_lines_def
        initial_CssRecord_def js_to_string_def addCustomSelector_def Let_def)
  show ?thesis
    using first fresh recomputed
      addCustomSelector_leaves_cache_stale [of "''a''"
        "initial_CssRecord\<lparr>selector := Some ''b''\<rparr>"
        "\<lparr>minimize = True, mangleSelectors = False\<rparr>"
        "\<lparr>minimize = True, mangleSelectors = False\<rparr>"]
    by (metis fst_conv)
qed

section \<open>\<open>configure\<close>\<close>

lemma addProperty_frame:
  "selector (addProperty hook p v r) = selector r
   \<and> mangledSelector (addProperty hook p v r) = mangledSelector r
   \<and> screenId (addProperty hook p v r) = screenId r
   \<and> scope (addProperty hook p v r) = scope r
   \<and> shouldBeGenerated (addProperty hook p v r) = shouldBeGenerated r
   \<and> customSelectors (addProperty hook p v r) = customSelectors r
   \<and> components (addProperty hook p v r) = components r
   \<and> pseudoClasses (addProperty hook p v r) = pseudoClasses r
   \<and> cache (addProperty hook p v r) = cache r"
  by (simp add: addProperty_def Let_def)

lemma addProperties_fold_frame:
  "selector (fold (\<lambda>(property, v) acc. addProperty hook property v (acc\<lparr>changed := True\<rparr>)) es r) = selector r
   \<and> mangledSelector (fold (\<lambda>(property, v) acc. addProperty hook property v (acc\<lparr>changed := True\<rparr>)) es r) = mangledSelector r
   \<and> screenId (fold (\<lambda>(property, v) acc. addProperty hook property v (acc\<lparr>changed := True\<rparr>)) es r) = screenId r
   \<and> scope (fold (\<lambda>(property, v) acc. addProperty hook property v (acc\<lparr>changed := True\<rparr>)) es r) = scope r
   \<and> shouldBeGenerated (fold (\<lambda>(property, v) acc. addProperty hook property v (acc\<lparr>changed := True\<rparr>)) es r) = shouldBeGenerated r
   \<and> customSelectors (fold (\<lambda>(property, v) acc. addProperty hook property v (acc\<lparr>changed := True\<rparr>)) es r) = customSelectors r
   \<and> components (fold (\<lambda>(property, v) acc. addProperty hook property v (acc\<lparr>changed := True\<rparr>)) es r) = components r
   \<and> pseudoClasses (fold (\<lambda>(property, v) acc. addProperty hook property v (acc\<lparr>changed := True\<rparr>)) es r) = pseudoClasses r
   \<and> cache (fold (\<lambda>(property, v) acc. addProperty hook property v (acc\<lparr>changed := True\<rparr>)) es r) = cache r"
proof (induction es arbitrary: r)
  case Nil
  then show ?case by simp
next
  case (Cons e es)
  obtain p v where e: "e = (p, v)" by (cases e)
  show ?case
    using Cons.IH [of "addProperty hook p v (r\<lparr>changed := True\<rparr>)"]
      addProperty_frame [of hook p v "r\<lparr>changed := True\<rparr>"]
    by (simp add: e)
qed

lemma addProperties_frame:
  "selector (addProperties hook props r) = selector r
   \<and> mangledSelector (addProperties hook props r) = mangledSelector r
   \<and> screenId (addProperties hook props r) = screenId r
   \<and> scope (addProperties hook props r) = scope r
   \<and> shouldBeGenerated (addProperties hook props r) = shouldBeGenerated r
   \<and> customSelectors (addProperties hook props r) = customSelectors r
   \<and> components (addProperties hook props r) = components r
   \<and> pseudoClasses (addProperties hook props r) = pseudoClasses r
   \<and> cache (addProperties hook props r) = cache r"
  unfolding addProperties_def by (rule addProperties_fold_frame)

lemma pseudoClasses_loop_frame:
  "selector (pseudoClasses_loop xs r) = selector r
   \<and> mangledSelector (pseudoClasses_loop xs r) = mangledSelector r
   \<and> screenId (pseudoClasses_loop xs r) = screenId r
   \<and> scope (pseudoClasses_loop xs r) = scope r
   \<and> shouldBeGenerated (pseudoClasses_loop xs r) = shouldBeGenerated r
   \<and> customSelectors (pseudoClasses_loop xs r) = customSelectors r
   \<and> components (pseudoClasses_loop xs r) = components r
   \<and> properties (pseudoClasses_loop xs r) = properties r
   \<and> cache (pseudoClasses_loop xs r) = cache r"
  by (induction xs arbitrary: r) simp_all

lemma addPseudoClasses_frame:
  "selector (addPseudoClasses arg r) = selector r
   \<and> mangledSelector (addPseudoClasses arg r) = mangledSelector r
   \<and> screenId (addPseudoClasses arg r) = screenId r
   \<and> scope (addPseudoClasses arg r) = scope r
   \<and> shouldBeGenerated (addPseudoClasses arg r) = shouldBeGenerated r
   \<and> customSelectors (addPseudoClasses arg r) = customSelectors r
   \<and> components (addPseudoClasses arg r) = components r
   \<and> properties (addPseudoClasses arg r) = properties r
   \<and> cache (addPseudoClasses arg r) = cache r"
  unfolding addPseudoClasses_def by (rule pseudoClasses_loop_frame)

lemma addComponent_frame:
  "selector (addComponent sel chain r) = selector r
   \<and> mangledSelector (addComponent sel chain r) = mangledSelector r
   \<and> screenId (addComponent sel chain r) = screenId r
   \<and> scope (addComponent sel chain r) = scope r
   \<and> shouldBeGenerated (addComponent sel chain r) = shouldBeGenerated r
   \<and> customSelectors (addComponent sel chain r) = customSelectors r
   \<and> properties (addComponent sel chain r) = properties r
   \<and> pseudoClasses (addComponent sel chain r) = pseudoClasses r
   \<and> cache (addComponent sel chain r) = cache r"
  by (simp add: addComponent_def Let_def)

lemma addComponents_fold_frame:
  "selector (fold (\<lambda>(componentSelector, chain) acc. addComponent componentSelector chain acc) es r) = selector r
   \<and> mangledSelector (fold (\<lambda>(componentSelector, chain) acc. addComponent componentSelector chain acc) es r) = mangledSelector r
   \<and> screenId (fold (\<lambda>(componentSelector, chain) acc. addComponent componentSelector chain acc) es r) = screenId r
   \<and> scope (fold (\<lambda>(componentSelector, chain) acc. addComponent componentSelector chain acc) es r) = scope r
   \<and> shouldBeGenerated (fold (\<lambda>(componentSelector, chain) acc. addComponent componentSelector chain acc) es r) = shouldBeGenerated r
   \<and> customSelectors (fold (\<lambda>(componentSelector, chain) acc. addComponent componentSelector chain acc) es r) = customSelectors r
   \<and> properties (fold (\<lambda>(componentSelector, chain) acc. addComponent componentSelector chain acc) es r) = properties r
   \<and> pseudoClasses (fold (\<lambda>(componentSelector, chain) acc. addComponent componentSelector chain acc) es r) = pseudoClasses r
   \<and> cache (fold (\<lambda>(componentSelector, chain) acc. addComponent componentSelector chain acc) es r) = cache r"
proof (induction es arbitrary: r)
  case Nil
  then show ?case by simp
next
  case (Cons e es)
  obtain k c where e: "e = (k, c)" by (cases e)
  show ?case
    using Cons.IH [of "addComponent k c r"] addComponent_frame [of k c r]
    by (simp add: e)
qed

lemma addComponents_frame:
  "selector (addComponents comps r) = selector r
   \<and> mangledSelector (addComponents comps r) = mangledSelector r
   \<and> screenId (addComponents comps r) = screenId r
   \<and> scope (addComponents comps r) = scope r
   \<and> shouldBeGenerated (addComponents comps r) = shouldBeGenerated r
   \<and> customSelectors (addComponents comps r) = customSelectors r
   \<and> properties (addComponents comps r) = properties r
   \<and> pseudoClasses (addComponents comps r) = pseudoClasses r
   \<and> cache (addComponents comps r) = cache r"
  unfolding addComponents_def by (rule addComponents_fold_frame)

text \<open>What a successful \<open>configure\<close> leaves in the fields it assigns.\<close>

lemma configure_Some:
  assumes "cfg_selector config = Some s"
  shows "\<exists>r'. configure mangle hook config r = Inr r'
    \<and> changed r'
    \<and> mangledSelector r' = Some (mangle (Some s))
    \<and> screenId r' = cfg_screenId config
    \<and> selector r' = Some (if starts_with_digit (replace_non_ident s)
                           then backslash # CHR ''3'' # replace_non_ident s
                           else replace_non_ident s)
    \<and> scope r' = (case cfg_scope config of None \<Rightarrow> None
                   | Some sc \<Rightarrow> if sc = [] then None else Some sc)
    \<and> shouldBeGenerated r' = (case cfg_shouldBeGenerated config of Some b \<Rightarrow> b
                                | None \<Rightarrow> shouldBeGenerated r)
    \<and> customSelectors r' = customSelectors r
    \<and> cache r' = cache r"
proof -
  have keys: "config_keys_length config \<noteq> 0"
    using assms by (simp add: config_keys_length_def count_present_def)
  show ?thesis
    using keys assms
    by (simp add: configure_def Let_def addPseudoClasses_frame addProperties_frame
        addComponents_frame split: option.splits)
qed

text \<open>
  C10. \<open>configure\<close> returns at once, with the record untouched, exactly for a config
  without keys. A config with keys but without \<open>selector\<close> makes it throw a \<open>TypeError\<close>,
  after it has handed the missing selector to the mangler and assigned \<open>mangledSelector\<close>
  and \<open>screenId\<close>; a config with a \<open>selector\<close> has keys, and \<open>configure\<close> then succeeds,
  hands the selector to the mangler and marks the record as changed.
\<close>

theorem configure_needs_selector:
  "(config_keys_length config = 0 \<longrightarrow> configure mangle hook config r = Inr r)
   \<and> (config_keys_length config \<noteq> 0 \<and> cfg_selector config = None \<longrightarrow>
        configure mangle hook config r
          = Inl (TypeError, r\<lparr>mangledSelector := Some (mangle None),
                                screenId := cfg_screenId config\<rparr>))
   \<and> (\<forall>s. cfg_selector config = Some s \<longrightarrow>
        config_keys_length config \<noteq> 0
        \<and> (\<exists>r'. configure mangle hook config r = Inr r' \<and> changed r'
               \<and> mangledSelector r' = Some (mangle (Some s))))"
proof (intro conjI allI impI)
  assume "config_keys_length config = 0"
  then show "configure mangle hook config r = Inr r"
    by (simp add: configure_def)
next
  assume "config_keys_length config \<noteq> 0 \<and> cfg_selector config = None"
  then show "configure mangle hook config r
      = Inl (TypeError, r\<lparr>mangledSelector := Some (mangle None), screenId := cfg_screenId config\<rparr>)"
    by (simp add: configure_def Let_def)
next
  fix s
  assume s: "cfg_selector config = Some s"
  then show "config_keys_length config \<noteq> 0"
    by (simp add: config_keys_length_def count_present_def)
  show "\<exists>r'. configure mangle hook config r = Inr r' \<and> changed r'
      \<and> mangledSelector r' = Some (mangle (Some s))"
    using configure_Some [OF s, of mangle hook r] by blast
qed

theorem configure_needs_selector_witness:
  "configure plain_mangler (\<lambda>payload. payload) empty_config initial_CssRecord = Inr initial_CssRecord
   \<and> configure plain_mangler (\<lambda>payload. payload) (empty_config\<lparr>cfg_screenId := Some 1\<rparr>)
        initial_CssRecord
      = Inl (TypeError, initial_CssRecord\<lparr>mangledSelector := Some (plain_mangler None),
                                          screenId := Some 1\<rparr>)"
proof -
  have e: "config_keys_length empty_config = 0"
    by (simp add: config_keys_length_def count_present_def empty_config_def)
  have n: "config_keys_length (empty_config\<lparr>cfg_screenId := Some 1\<rparr>) \<noteq> 0
      \<and> cfg_selector (empty_config\<lparr>cfg_screenId := Some 1\<rparr>) = None"
    by (simp add: config_keys_length_def count_present_def empty_config_def)
  have s: "cfg_screenId (empty_config\<lparr>cfg_screenId := Some 1\<rparr>) = Some 1"
    by simp
  show ?thesis
    using e n s
      configure_needs_selector [of empty_config plain_mangler "\<lambda>payload. payload" initial_CssRecord]
      configure_needs_selector [of "empty_config\<lparr>cfg_screenId := Some 1\<rparr>" plain_mangler
        "\<lambda>payload. payload" initial_CssRecord]
    by metis
qed

section \<open>The stored selector\<close>

lemma is_ident_char_spec: "is_ident_char c = spec_plain_char c"
  by (cases c) (simp add: is_ident_char_def spec_plain_char_def is_digit_def Let_def)

lemma is_digit_spec: "is_digit c = (c \<in> set ''0123456789'')"
  by (cases c) (simp add: is_digit_def Let_def)

lemma digit_is_ident: "is_digit c \<Longrightarrow> is_ident_char c"
  by (simp add: is_ident_char_def Let_def)

lemma backslash_not_digit: "\<not> is_digit backslash"
  by (simp add: is_digit_def backslash_def)

lemma replace_non_ident_spec:
  "replace_non_ident s = concat (map (\<lambda>c. if spec_plain_char c then [c] else [backslash, c]) s)"
  by (induction s) (simp_all add: is_ident_char_spec)

lemma starts_with_digit_replace:
  "starts_with_digit (replace_non_ident s) = (case s of [] \<Rightarrow> False | c # _ \<Rightarrow> is_digit c)"
  using digit_is_ident backslash_not_digit
  by (cases s) (auto simp: starts_with_digit_def)

lemma stored_selector_spec:
  "(if starts_with_digit (replace_non_ident s) then backslash # CHR ''3'' # replace_non_ident s
    else replace_non_ident s) = spec_canonical_selector s"
proof (cases s)
  case Nil
  then show ?thesis
    by (simp add: starts_with_digit_def spec_canonical_selector_def)
next
  case (Cons c cs)
  have d: "starts_with_digit (replace_non_ident s) = (c \<in> set ''0123456789'')"
    unfolding starts_with_digit_replace Cons by (simp add: is_digit_spec)
  have pre: "spec_canonical_selector s =
      (if c \<in> set ''0123456789'' then [backslash, CHR ''3''] else []) @ replace_non_ident s"
    unfolding spec_canonical_selector_def replace_non_ident_spec Cons by simp
  show ?thesis
    unfolding d pre by (cases "c \<in> set ''0123456789''") simp_all
qed

text \<open>
  C7. \<open>configure\<close> with a selector stores the selector with a backslash before every
  character that is not a letter, a digit, \<open>-\<close> or \<open>_\<close>, and with the prefix \<open>\3\<close> when the
  selector begins with a digit.
\<close>

theorem configure_stores_escaped_selector:
  "cfg_selector config = Some s \<Longrightarrow>
   \<exists>r'. configure mangle hook config r = Inr r' \<and> selector r' = Some (spec_canonical_selector s)"
  using configure_Some [of config s mangle hook r] by (auto simp: stored_selector_spec)

theorem configure_stores_escaped_selector_witness:
  "\<exists>r'. new_CssRecord plain_mangler (\<lambda>payload. payload) (empty_config\<lparr>cfg_selector := Some ''1a:b''\<rparr>) = Inr r'
     \<and> selector r' = Some [backslash, CHR ''3'', CHR ''1'', CHR ''a'', backslash, CHR '':'', CHR ''b'']"
proof -
  have "cfg_selector (empty_config\<lparr>cfg_selector := Some ''1a:b''\<rparr>) = Some ''1a:b''"
    by simp
  from configure_stores_escaped_selector [OF this, of plain_mangler "\<lambda>payload. payload" initial_CssRecord]
  show ?thesis
    by (auto simp: new_CssRecord_def spec_canonical_selector_def spec_plain_char_def)
qed

section \<open>Pseudo-classes\<close>

text \<open>
  C4. The record built from the selector \<open>btn\<close> and the pseudo-classes \<open>hover\<close> and \<open>focus\<close>,
  with the custom selector \<open>a\<close> added: the class selector is rendered with both suffixes,
  the custom selector with the last one only. The claim asks for \<open>a:hover\<close> as well.
\<close>

theorem custom_selectors_keep_last_pseudo_class_only:
  "new_CssRecord plain_mangler (\<lambda>payload. payload) two_pseudo_config = Inr two_pseudo_record
   \<and> fst (generateCss \<lparr>minimize = True, mangleSelectors = False\<rparr>
        (addCustomSelector ''a'' two_pseudo_record))
     = ''a:focus,.btn:hover,.btn:focus{}''"
proof -
  have built: "new_CssRecord plain_mangler (\<lambda>payload. payload) two_pseudo_config = Inr two_pseudo_record"
    by (simp add: new_CssRecord_def configure_def two_pseudo_config_def two_pseudo_record_def
        empty_config_def config_keys_length_def count_present_def initial_CssRecord_def Let_def
        is_ident_char_def is_digit_def starts_with_digit_def addComponents_def addProperties_def
        addPseudoClasses_def own_entries_def Object_keys_def plain_mangler_def)
  have css: "fst (generateCss \<lparr>minimize = True, mangleSelectors = False\<rparr>
        (addCustomSelector ''a'' two_pseudo_record))
     = ''a:focus,.btn:hover,.btn:focus{}''"
    by (simp add: generateCss_def regenerate_def css_text_def selector_variants_def
        components_loop_def own_entries_def Object_keys_def property_lines_def
        two_pseudo_record_def js_to_string_def addCustomSelector_def Let_def)
  show ?thesis using built css by simp
qed

section \<open>Serialising the legacy record\<close>

lemma hydrate_without_pseudoClasses:
  "\<not> properties_length_truthy (legacy_properties r) \<Longrightarrow> hydrate (serialize r) fresh = Inl TypeError"
  by (simp add: hydrate_def serialize_def Let_def)

text \<open>
  C6. \<open>serialize\<close> leaves \<open>pseudoClasses\<close> out unless the properties have a truthy
  \<open>length\<close> entry, and \<open>hydrate\<close> reads \<open>data.pseudoClasses.length\<close>: hydrating the
  serialised sample record into a fresh record throws a \<open>TypeError\<close>. The claim asks for a
  record with the selectors, properties and pseudo-classes of the sample.
\<close>

theorem hydrate_of_serialize_throws:
  "legacy_sample =
     \<lparr>selectors = [[CHR ''m'', backslash, CHR '':'', CHR ''1'', CHR ''0'', CHR ''p'', CHR ''x'']],
      legacy_properties = [(''margin'', ''10px'')], legacy_pseudoClasses = [''hover'']\<rparr>
   \<and> serialize legacy_sample =
     \<lparr>ser_selectors = [''m:10px''], ser_properties = [(''margin'', ''10px'')],
      ser_pseudoClasses = None\<rparr>
   \<and> hydrate (serialize legacy_sample) (new_LegacyCssRecord [] [] []) = Inl TypeError"
proof -
  have sample: "legacy_sample =
     \<lparr>selectors = [[CHR ''m'', backslash, CHR '':'', CHR ''1'', CHR ''0'', CHR ''p'', CHR ''x'']],
      legacy_properties = [(''margin'', ''10px'')], legacy_pseudoClasses = [''hover'']\<rparr>"
    by (simp add: legacy_sample_def new_LegacyCssRecord_def legacy_addSelector_def
        legacy_hasSelector_def is_ident_char_def is_digit_def Let_def)
  have ser: "serialize legacy_sample =
     \<lparr>ser_selectors = [''m:10px''], ser_properties = [(''margin'', ''10px'')],
      ser_pseudoClasses = None\<rparr>"
    by (simp add: sample serialize_def properties_length_truthy_def backslash_def
        is_ident_char_def is_digit_def)
  have "hydrate (serialize legacy_sample) (new_LegacyCssRecord [] [] []) = Inl TypeError"
    by (simp add: ser hydrate_def Let_def)
  then show ?thesis using sample ser by simp
qed

section \<open>The scenario \<open>m:10px\<close>\<close>

lemma compile_step_margin:
  "compile_step mangle (\<lambda>payload. payload) margin_compiler ''m:10px'' existingResult
     = (case process_matches mangle (\<lambda>payload. payload) margin_compiler
               [(margin_macro, \<lparr>matched_text = ''m:10px'', groups = [''10px'']\<rparr>)]
               (Map.empty, (case existingResult of None \<Rightarrow> [] | Some res \<Rightarrow> res)) of
          Inl e \<Rightarrow> Inl e
        | Inr (table, res) \<Rightarrow> Inr (margin_compiler\<lparr>components_table := table\<rparr>, res))"
proof -
  have directives: "apply_directives margin_compiler ''m:10px'' = margin_compiler"
    by (simp add: apply_directives_def margin_compiler_def no_options_def)
  have scanned: "all_matches margin_compiler ''m:10px''
      = [(margin_macro, \<lparr>matched_text = ''m:10px'', groups = [''10px'']\<rparr>)]"
    by (simp add: all_matches_def margin_compiler_def margin_macro_def is_space_def Let_def)
  have plain: "substitute_variables margin_compiler (variables margin_compiler) ''m:10px'' = ''m:10px''"
    "components_table margin_compiler = Map.empty"
    by (simp_all add: margin_compiler_def)
  show ?thesis
    by (simp add: compile_step_def directives scanned plain Let_def)
qed

lemma compile_margin:
  "compile mangle (\<lambda>payload. payload) margin_compiler ''m:10px'' None
     = Inr [margin_record\<lparr>mangledSelector := Some (mangle (Some ''m:10px''))\<rparr>]"
  unfolding compile_def compile_step_margin
  by (simp add: construct_match_def match_identity_def margin_compiler_def margin_macro_def
      getCapture_def process_match_def collect_properties_def SelectorProperties_add_def
      object_spread_def own_entries_def Object_keys_def array_index_value_def is_digit_def
      create_record_def new_CssRecord_def configure_def config_keys_length_def
      count_present_def initial_CssRecord_def Let_def is_ident_char_def starts_with_digit_def
      addComponents_def addProperties_def addProperty_def js_in_def Object_prototype_keys_def
      addPseudoClasses_def margin_record_def backslash_def)

lemma generateCss_margin:
  "fst (generateCss \<lparr>minimize = False, mangleSelectors = False\<rparr>
         (margin_record\<lparr>mangledSelector := x\<rparr>))
     = ''.m'' @ [backslash] @ '':10px{'' @ [newline_char, tab_char] @ ''margin: 10px''
       @ [newline_char] @ ''}'' @ [newline_char]"
  by (simp add: generateCss_def regenerate_def css_text_def selector_variants_def
      components_loop_def own_entries_def Object_keys_def array_index_value_def is_digit_def
      property_lines_def margin_record_def js_to_string_def Let_def)

text \<open>
  C5, as the claim states it. Compiling \<open>m:10px\<close> with the macro \<open>m:(\S+)\<close> gives the one
  record of the claim, but \<open>generateCss\<close> without \<open>minimize\<close> puts a space after the colon of
  a property, so its text is not the text of the claim.
\<close>

theorem margin_scenario_text_counterexample:
  "compile plain_mangler no_listener margin_compiler ''m:10px'' None
     = Inr [margin_record\<lparr>mangledSelector := Some ''m:10px''\<rparr>]
   \<and> fst (generateCss \<lparr>minimize = False, mangleSelectors = False\<rparr>
         (margin_record\<lparr>mangledSelector := Some ''m:10px''\<rparr>))
     \<noteq> ''.m'' @ [backslash] @ '':10px{'' @ [newline_char, tab_char] @ ''margin:10px''
       @ [newline_char] @ ''}'' @ [newline_char]"
proof -
  have listener: "no_listener = (\<lambda>payload. payload)"
    by (simp add: fun_eq_iff no_listener_def)
  show ?thesis
    unfolding listener by (simp add: compile_margin generateCss_margin plain_mangler_def)
qed

text \<open>
  C5, amended. Compiling \<open>m:10px\<close> with the macro \<open>m:(\S+)\<close>, whose handler adds \<open>margin\<close>
  with the capture, and no hook listener gives exactly one record; its selector is
  \<open>m\:10px\<close>, its properties are \<open>margin: 10px\<close>, and \<open>generateCss\<close> with \<open>minimize\<close> and
  \<open>mangleSelectors\<close> off renders the selector line \<open>.m\:10px{\<close>, the line
  \<open>margin: 10px\<close> after a tab, and the closing brace, each followed by a newline.
\<close>

theorem margin_scenario:
  "compile mangle (\<lambda>payload. payload) margin_compiler ''m:10px'' None
     = Inr [margin_record\<lparr>mangledSelector := Some (mangle (Some ''m:10px''))\<rparr>]
   \<and> selector (margin_record\<lparr>mangledSelector := Some (mangle (Some ''m:10px''))\<rparr>)
       = Some (''m'' @ [backslash] @ '':10px'')
   \<and> properties (margin_record\<lparr>mangledSelector := Some (mangle (Some ''m:10px''))\<rparr>)
       = [(''margin'', ''10px'')]
   \<and> fst (generateCss \<lparr>minimize = False, mangleSelectors = False\<rparr>
         (margin_record\<lparr>mangledSelector := Some (mangle (Some ''m:10px''))\<rparr>))
     = ''.m'' @ [backslash] @ '':10px{'' @ [newline_char, tab_char] @ ''margin: 10px''
       @ [newline_char] @ ''}'' @ [newline_char]"
  by (simp add: compile_margin generateCss_margin) (simp add: margin_record_def)

section \<open>Compiling a content twice\<close>

subsection \<open>A record that absorbs a match\<close>

























lemma absorbs_set_changed:
  "absorbs r props pcs comps \<Longrightarrow> absorbs (r\<lparr>changed := True\<rparr>) props pcs comps"
  by (simp add: absorbs_def)








subsection \<open>The record the compiler creates\<close>





subsection \<open>Look up or create\<close>




subsection \<open>The properties a handler accumulates\<close>




subsection \<open>Matches\<close>







text \<open>A pass is the processing of the matches it constructs, and ends with its last table.\<close>

lemma process_matches_split:
  "process_matches mangle hook c ms (table, res) =
     (case process_literals mangle hook c (literal_matches c table ms) res of
        Inl e \<Rightarrow> Inl e
      | Inr res' \<Rightarrow> Inr (final_table c table ms, res'))"
proof (induction ms arbitrary: table res)
  case Nil
  then show ?case by simp
next
  case (Cons mr ms)
  show ?case
  proof (cases "declares_component (construct_match c table (snd mr))")
    case None
    then show ?thesis
      using Cons.IH by (simp add: Let_def split: sum.splits)
  next
    case (Some declared)
    obtain name chain where d: "declared = (name, chain)" by (cases declared)
    have step: "process_matches mangle hook c (mr # ms) (table, res)
        = process_matches mangle hook c ms (table(name \<mapsto> chain), res)"
      by (simp add: Let_def Some d)
    have lits: "literal_matches c table (mr # ms) = literal_matches c (table(name \<mapsto> chain)) ms"
      by (simp add: Let_def Some d)
    have final: "final_table c table (mr # ms) = final_table c (table(name \<mapsto> chain)) ms"
      by (simp add: Some d)
    show ?thesis
      unfolding step lits final by (rule Cons.IH)
  qed
qed

subsection \<open>Two compilations\<close>

text \<open>A compilation processes the matches it constructs into the result it starts from.\<close>

lemma compile_step_literals:
  "compile_step mangle hook c content existingResult =
     (case process_literals mangle hook (apply_directives c content)
             (constructed_matches c content)
             (case existingResult of None \<Rightarrow> [] | Some res \<Rightarrow> res) of
        Inl e \<Rightarrow> Inl e
      | Inr res' \<Rightarrow>
          Inr ((apply_directives c content)
                 \<lparr>components_table :=
                    final_table (apply_directives c content)
                      (components_table (apply_directives c content))
                      (all_matches (apply_directives c content)
                         (substitute_variables (apply_directives c content)
                            (variables (apply_directives c content)) content))\<rparr>,
               res'))"
  unfolding compile_step_def constructed_matches_def Let_def process_matches_split
  by (simp split: sum.splits)






text \<open>
  Applying the directives of a content twice is applying them once, so a compilation
  whose matches leave the table of component aliases as the directives left it is
  followed by a compilation that constructs the same matches.
\<close>

lemma map_add_twice: "(m ++ n) ++ n = m ++ n"
  by (rule ext) (simp add: map_add_def split: option.splits)

lemma apply_directives_twice:
  "apply_directives (apply_directives c content) content = apply_directives c content"
  by (simp add: apply_directives_def Let_def map_add_twice)

lemma constructed_matches_unchanged_table:
  assumes first: "compile_step mangle hook c content existingResult = Inr (c', res)"
    and table: "components_table c' = components_table (apply_directives c content)"
  shows "constructed_matches c' content = constructed_matches c content"
proof -
  let ?c1 = "apply_directives c content"
  obtain t where "c' = ?c1\<lparr>components_table := t\<rparr>"
    using first unfolding compile_step_literals
    by (cases "process_literals mangle hook ?c1 (constructed_matches c content)
          (case existingResult of None \<Rightarrow> [] | Some res \<Rightarrow> res)") auto
  then have "c' = ?c1"
    using table by simp
  then show ?thesis
    by (simp add: constructed_matches_def apply_directives_twice)
qed

subsection \<open>No duplicates\<close>













subsection \<open>The compilers of the scenarios\<close>















end
